theory Spec2Isabelle
  imports Main "HOL-Library.Sublist"
begin

section \<open>JavaScript values of a parsed request body\<close>

text \<open>
  \<open>bodyParser.json\<close> hands the handler the parsed JSON document. The value \<open>undefined\<close>
  (a property that is absent) is \<open>None\<close> of \<open>json option\<close>.

  A number is held as the text that \<open>Number.prototype.toString\<close> gives for it (\<open>2\<close>,
  \<open>0.5\<close>, \<open>1e+21\<close>, \<open>NaN\<close>, \<open>Infinity\<close>; both zeros render as \<open>0\<close>). The handler only
  tests numbers for truthiness and interpolates them into template literals, and both are
  functions of that text. An object is the list of its own properties after parsing, so
  its keys are distinct.
\<close>

datatype json =
    JNull
  | JBool bool
  | JNum string
  | JStr string
  | JArr "json list"
  | JObj "(string \<times> json) list"

text \<open>The four kinds of error value that reach the handler's \<open>catch\<close> blocks.\<close>

datatype js_error =
    TypeError string
  | ReferenceError string
  | Error string
  | SystemError string

fun message :: "js_error \<Rightarrow> string" where
  "message (TypeError m) = m"
| "message (ReferenceError m) = m"
| "message (Error m) = m"
| "message (SystemError m) = m"

text \<open>\<open>ToBoolean\<close>: what \<open>!html\<close> and \<open>options.size ? \<dots> : \<dots>\<close> test.\<close>

fun truthy :: "json \<Rightarrow> bool" where
  "truthy JNull = False"
| "truthy (JBool b) = b"
| "truthy (JNum r) = (r \<noteq> ''0'' \<and> r \<noteq> ''NaN'')"
| "truthy (JStr s) = (s \<noteq> [])"
| "truthy (JArr xs) = True"
| "truthy (JObj kvs) = True"

fun truthy_opt :: "json option \<Rightarrow> bool" where
  "truthy_opt None = False"
| "truthy_opt (Some v) = truthy v"

text \<open>
  Reading a property whose name no built-in prototype defines (\<open>html\<close>, \<open>options\<close>,
  \<open>size\<close>, \<open>pause\<close>): \<open>null\<close> throws, an object gives its own property, every other value
  gives \<open>undefined\<close>.
\<close>

fun get_prop :: "json \<Rightarrow> string \<Rightarrow> js_error + json option" where
  "get_prop JNull k =
     Inl (TypeError (''Cannot read properties of null (reading '' @ [CHR 0x27] @ k @ [CHR 0x27] @ '')''))"
| "get_prop (JObj kvs) k = Inr (map_of kvs k)"
| "get_prop v k = Inr None"

text \<open>\<open>Array.prototype.join\<close> on strings that are already converted.\<close>

fun join_with :: "string \<Rightarrow> string list \<Rightarrow> string" where
  "join_with sep [] = []"
| "join_with sep [x] = x"
| "join_with sep (x # y # ys) = x @ sep @ join_with sep (y # ys)"

text \<open>
  \<open>ToString\<close>, as a template literal applies it. An array joins its elements with commas,
  \<open>null\<close> elements as the empty string. An object gives \<open>[object Object]\<close>, unless it has
  an own property \<open>toString\<close>: that property hides \<open>Object.prototype.toString\<close>, no JSON
  value is callable, and the conversion to a primitive throws.
\<close>

fun sequence_err :: "(js_error + 'a) list \<Rightarrow> js_error + 'a list" where
  "sequence_err [] = Inr []"
| "sequence_err (Inl e # rs) = Inl e"
| "sequence_err (Inr x # rs) = (case sequence_err rs of Inl e \<Rightarrow> Inl e | Inr xs \<Rightarrow> Inr (x # xs))"

fun to_string :: "json \<Rightarrow> js_error + string" where
  "to_string JNull = Inr ''null''"
| "to_string (JBool b) = Inr (if b then ''true'' else ''false'')"
| "to_string (JNum r) = Inr r"
| "to_string (JStr s) = Inr s"
| "to_string (JArr xs) =
     (case sequence_err (map (\<lambda>x. if x = JNull then Inr [] else to_string x) xs) of
        Inl e \<Rightarrow> Inl e
      | Inr ss \<Rightarrow> Inr (join_with '','' ss))"
| "to_string (JObj kvs) =
     (if map_of kvs ''toString'' \<noteq> None
      then Inl (TypeError ''Cannot convert object to primitive value'')
      else Inr ''[object Object]'')"

section \<open>Library functions the handler calls\<close>

text \<open>
  \<open>String.prototype.split\<close> with a one-character separator: every occurrence of the
  separator ends an element, empty elements are kept, and the empty string splits into
  one empty element.
\<close>

fun split :: "char \<Rightarrow> string \<Rightarrow> string list" where
  "split sep [] = [[]]"
| "split sep (c # cs) =
     (if c = sep then [] # split sep cs
      else (case split sep cs of [] \<Rightarrow> [[c]] | w # ws \<Rightarrow> (c # w) # ws))"

text \<open>
  \<open>path.join\<close> of the POSIX flavour, for two arguments: the non-empty arguments are glued
  with a slash and the result is normalised. Normalising drops empty and \<open>.\<close> segments,
  lets \<open>..\<close> cancel the segment before it (a relative path keeps the \<open>..\<close> it cannot
  cancel), and keeps a leading and a trailing slash.
\<close>

fun normalizeSegments :: "bool \<Rightarrow> string list \<Rightarrow> string list \<Rightarrow> string list" where
  "normalizeSegments allowAboveRoot res [] = res"
| "normalizeSegments allowAboveRoot res (seg # segs) =
     (if seg = [] \<or> seg = ''.'' then normalizeSegments allowAboveRoot res segs
      else if seg = ''..'' then
        (if res \<noteq> [] \<and> last res \<noteq> ''..'' then normalizeSegments allowAboveRoot (butlast res) segs
         else if allowAboveRoot then normalizeSegments allowAboveRoot (res @ [''..'']) segs
         else normalizeSegments allowAboveRoot res segs)
      else normalizeSegments allowAboveRoot (res @ [seg]) segs)"

definition normalizeString :: "string \<Rightarrow> bool \<Rightarrow> string" where
  "normalizeString path allowAboveRoot =
     join_with ''/'' (normalizeSegments allowAboveRoot [] (split CHR ''/'' path))"

definition posix_normalize :: "string \<Rightarrow> string" where
  "posix_normalize path =
     (if path = [] then ''.''
      else
        let isAbsolute = (hd path = CHR ''/'');
            trailingSeparator = (last path = CHR ''/'');
            p = normalizeString path (\<not> isAbsolute)
        in if p = [] then (if isAbsolute then ''/'' else if trailingSeparator then ''./'' else ''.'')
           else
             let p' = (if trailingSeparator then p @ ''/'' else p)
             in if isAbsolute then ''/'' @ p' else p')"

definition join :: "string \<Rightarrow> string \<Rightarrow> string" where
  "join a b =
     (if a = [] \<and> b = [] then ''.''
      else if a = [] then posix_normalize b
      else if b = [] then posix_normalize a
      else posix_normalize (a @ ''/'' @ b))"

text \<open>\<open>process.env.X || d\<close>: an unset or empty variable gives the default.\<close>

fun or_default :: "string option \<Rightarrow> string \<Rightarrow> string" where
  "or_default None d = d"
| "or_default (Some s) d = (if s = [] then d else s)"

section \<open>The process-wide configuration and the argument vector\<close>

record config =
  dirname :: string
  tmpdir :: string
  CHROME_PATH :: "string option"
  CHROME_FLAGS :: "string option"

definition decktapePath :: "config \<Rightarrow> string" where
  "decktapePath cfg = join (dirname cfg) ''decktape.js''"

definition chromePath :: "config \<Rightarrow> string" where
  "chromePath cfg = or_default (CHROME_PATH cfg) ''/usr/bin/chromium-browser''"

definition chromeFlags :: "config \<Rightarrow> string list" where
  "chromeFlags cfg = split CHR '','' (or_default (CHROME_FLAGS cfg) ''--no-sandbox,--disable-gpu'')"

text \<open>
  \<open>...(options.size ? [`--size=${options.size}`] : [])\<close>: the property is read (which
  throws on \<open>null\<close>), tested for truthiness, and converted to a string when truthy.
\<close>

definition option_token :: "string \<Rightarrow> json \<Rightarrow> string \<Rightarrow> js_error + string list" where
  "option_token flag options k =
     (case get_prop options k of
        Inl e \<Rightarrow> Inl e
      | Inr v \<Rightarrow>
          (if truthy_opt v then
             (case to_string (the v) of Inl e \<Rightarrow> Inl e | Inr s \<Rightarrow> Inr [flag @ s])
           else Inr []))"

text \<open>The array literal \<open>args\<close> of \<open>src/server.js\<close>.\<close>

definition args_server :: "config \<Rightarrow> string \<Rightarrow> string \<Rightarrow> json \<Rightarrow> js_error + string list" where
  "args_server cfg htmlPath pdfPath options =
     (case option_token ''--size='' options ''size'' of
        Inl e \<Rightarrow> Inl e
      | Inr size_tokens \<Rightarrow>
          (case option_token ''--pause='' options ''pause'' of
             Inl e \<Rightarrow> Inl e
           | Inr pause_tokens \<Rightarrow>
               Inr ([decktapePath cfg, ''--chrome-path'', chromePath cfg]
                    @ map (\<lambda>flag. ''--chrome-arg='' @ flag) (chromeFlags cfg)
                    @ [''generic'', ''file://'' @ htmlPath, pdfPath,
                       ''--key=ArrowDown'', ''--key=ArrowRight'']
                    @ size_tokens @ pause_tokens)))"

text \<open>The array literal \<open>args\<close> of \<open>src/unnamed/part_000\<close>.\<close>

definition args_part_000 :: "config \<Rightarrow> string \<Rightarrow> string \<Rightarrow> json \<Rightarrow> js_error + string list" where
  "args_part_000 cfg htmlPath pdfPath options =
     (case option_token ''--size='' options ''size'' of
        Inl e \<Rightarrow> Inl e
      | Inr size_tokens \<Rightarrow>
          (case option_token ''--pause='' options ''pause'' of
             Inl e \<Rightarrow> Inl e
           | Inr pause_tokens \<Rightarrow>
               Inr ([decktapePath cfg, ''--chrome-path'', chromePath cfg]
                    @ map (\<lambda>flag. ''--chrome-arg='' @ flag) (chromeFlags cfg)
                    @ [''generic'', ''file://'' @ htmlPath, pdfPath]
                    @ size_tokens @ pause_tokens)))"

datatype variant = Server | Part000

fun args :: "variant \<Rightarrow> config \<Rightarrow> string \<Rightarrow> string \<Rightarrow> json \<Rightarrow> js_error + string list" where
  "args Server = args_server"
| "args Part000 = args_part_000"

section \<open>The response object, the environment and the handler's state\<close>

datatype body = JsonBody json | BufferBody string

record response =
  status :: nat
  headers :: "(string \<times> string) list"
  sent :: "body option"

definition res_status :: "nat \<Rightarrow> response \<Rightarrow> response" where
  "res_status code r = r\<lparr>status := code\<rparr>"

definition res_setHeader :: "string \<Rightarrow> string \<Rightarrow> response \<Rightarrow> response" where
  "res_setHeader name v r = r\<lparr>headers := (name, v) # filter (\<lambda>(k, _). k \<noteq> name) (headers r)\<rparr>"

definition getHeader :: "response \<Rightarrow> string \<Rightarrow> string option" where
  "getHeader r name = map_of (headers r) name"

text \<open>\<open>res.send\<close> of a buffer keeps the headers that are set and hands the bytes over.\<close>

definition res_send :: "string \<Rightarrow> response \<Rightarrow> response" where
  "res_send buf r = r\<lparr>sent := Some (BufferBody buf)\<rparr>"

text \<open>\<open>res.json\<close> sets the JSON content type unless one is set and sends the object.\<close>

definition res_json :: "json \<Rightarrow> response \<Rightarrow> response" where
  "res_json obj r =
     (if getHeader r ''Content-Type'' = None
      then res_setHeader ''Content-Type'' ''application/json; charset=utf-8'' r
      else r)\<lparr>sent := Some (JsonBody obj)\<rparr>"

text \<open>
  What the renderer process does, as the handler's four listeners see it: data chunks on
  the two streams and \<open>error\<close> events, in the order they arrive, and then the \<open>close\<close>
  event with the exit code (\<open>null\<close> when a signal ended the process), unless the process
  never closes. \<open>spawn\<close> itself may also throw.
\<close>

datatype child_event = StderrData string | StdoutData string | ErrorEvent js_error

datatype child_close = NoClose | Close "int option"

datatype spawn_result = SpawnThrows js_error | Child "child_event list" child_close

text \<open>
  The outcomes of the calls that leave the handler. \<open>mkdtemp\<close> gives the six characters it
  appends to the prefix. \<open>writeFile_result\<close> is the outcome of writing a string,
  \<open>writeFile_iterable_result\<close> the outcome of \<open>writeFile\<close> on an array that holds no
  chunk it is bound to refuse.
\<close>

record world =
  mkdtemp_result :: "js_error + string"
  writeFile_result :: "js_error option"
  writeFile_iterable_result :: "js_error option"
  spawn_result :: spawn_result
  readFile_result :: "js_error + string"

text \<open>
  \<open>fs.promises.writeFile(file, data)\<close> looks at \<open>data\<close> before it writes. A string is
  written. A number, a boolean, \<open>null\<close> and a plain object are refused with a
  \<open>TypeError\<close> (\<open>ERR_INVALID_ARG_TYPE\<close>; the message goes on to name what was received).
  An array is iterable: Node before 14.18 and 15.14 refuses it in the same way, later
  versions write its elements as chunks and refuse a chunk that is a number, a boolean or
  \<open>null\<close>. So an array that holds such a chunk is refused by every version, and for any
  other array the world gives the outcome.
\<close>

fun refused_chunk :: "json \<Rightarrow> bool" where
  "refused_chunk (JNum r) = True"
| "refused_chunk (JBool b) = True"
| "refused_chunk JNull = True"
| "refused_chunk v = False"

fun refused_by_writeFile :: "json \<Rightarrow> bool" where
  "refused_by_writeFile (JStr s) = False"
| "refused_by_writeFile (JArr xs) = list_ex refused_chunk xs"
| "refused_by_writeFile v = True"

definition writeFile :: "world \<Rightarrow> json \<Rightarrow> js_error option" where
  "writeFile w data =
     (if refused_by_writeFile data then
        Some (TypeError
          ''The data argument must be of type string or an instance of Buffer, TypedArray, or DataView.'')
      else
        (case data of
           JArr xs \<Rightarrow> writeFile_iterable_result w
         | _ \<Rightarrow> writeFile_result w))"

text \<open>The calls the handler makes and the events it is told of, in the order they happen.\<close>

datatype effect =
    Mkdtemp string
  | WriteFile string json
  | Spawn string "string list"
  | Closed "int option"
  | ReadFile string
  | Respond nat body
  | RmRf string

datatype promise_state = Pending | Fulfilled | Rejected js_error

text \<open>
  \<open>result\<close> is the promise the \<open>async\<close> handler returns, \<open>inner\<close> the promise made by
  \<open>new Promise\<close>, \<open>reacted\<close> whether the reaction registered by \<open>.catch\<close> has run.
\<close>

record hstate =
  res :: response
  trace :: "effect list"
  result :: promise_state
  inner :: promise_state
  reacted :: bool
  stderr_buf :: string
  stdout_buf :: string

definition log_effect :: "effect \<Rightarrow> hstate \<Rightarrow> hstate" where
  "log_effect e st = st\<lparr>trace := trace st @ [e]\<rparr>"

definition send_json :: "nat \<Rightarrow> json \<Rightarrow> hstate \<Rightarrow> hstate" where
  "send_json code obj st =
     log_effect (Respond code (JsonBody obj)) (st\<lparr>res := res_json obj (res_status code (res st))\<rparr>)"

definition cors_headers :: "(string \<times> string) list" where
  "cors_headers =
     [(''Referrer-Policy'', ''no-referrer-when-downgrade''),
      (''Access-Control-Allow-Credentials'', ''true''),
      (''Access-Control-Allow-Headers'', ''Content-Type, Authorization''),
      (''Access-Control-Allow-Methods'', ''GET, POST, OPTIONS''),
      (''Access-Control-Allow-Origin'', ''*'')]"

text \<open>
  The response as the route handler receives it: \<open>src/server.js\<close> has run its CORS
  middleware, \<open>src/unnamed/part_000\<close> has none.
\<close>

fun initial_headers :: "variant \<Rightarrow> (string \<times> string) list" where
  "initial_headers Server = cors_headers"
| "initial_headers Part000 = []"

definition initial_state :: "variant \<Rightarrow> hstate" where
  "initial_state v =
     \<lparr>res = \<lparr>status = 200, headers = initial_headers v, sent = None\<rparr>,
      trace = [], result = Pending, inner = Pending, reacted = False,
      stderr_buf = [], stdout_buf = []\<rparr>"

section \<open>The handler of POST /convert\<close>

text \<open>\<open>const { html, options = {} } = req.body\<close>\<close>

definition destructure :: "json \<Rightarrow> js_error + (json option \<times> json)" where
  "destructure b =
     (if b = JNull
      then Inl (TypeError ''Cannot destructure property html of req.body as it is null.'')
      else
        (case get_prop b ''html'' of
           Inl e \<Rightarrow> Inl e
         | Inr html \<Rightarrow>
             (case get_prop b ''options'' of
                Inl e \<Rightarrow> Inl e
              | Inr None \<Rightarrow> Inr (html, JObj [])
              | Inr (Some options) \<Rightarrow> Inr (html, options))))"

text \<open>
  The cleanup block, which both the \<open>finally\<close> of the close listener and the outer
  \<open>catch\<close> hold: \<open>if (tmpDir) { try { await fs.rm(tmpDir, { recursive: true, force: true }) }
  catch { log } }\<close>. A failing removal is logged and changes nothing else.
\<close>

definition cleanup :: "string option \<Rightarrow> hstate \<Rightarrow> hstate" where
  "cleanup tmpDir st =
     (case tmpDir of
        None \<Rightarrow> st
      | Some d \<Rightarrow> if d \<noteq> [] then log_effect (RmRf d) st else st)"

text \<open>The outer \<open>catch (error)\<close> block; the handler's promise then fulfils.\<close>

definition outer_catch :: "js_error \<Rightarrow> string option \<Rightarrow> hstate \<Rightarrow> hstate" where
  "outer_catch e tmpDir st =
     (cleanup tmpDir
        (send_json 500
           (JObj [(''error'', JStr ''PDF conversion failed''), (''details'', JStr (message e))])
           st))\<lparr>result := Fulfilled\<rparr>"

text \<open>
  The callback given to \<open>.catch\<close>. It calls \<open>res.status(500)\<close> and then builds the
  argument of \<open>json\<close>: \<open>error\<close> and \<open>details\<close> evaluate, and the shorthand property
  \<open>stdout\<close> names a variable that is declared inside the executor of \<open>new Promise\<close>
  and is not in scope here, nor a global, so a \<open>ReferenceError\<close> is thrown before
  \<open>json\<close> is called. The promise \<open>.catch\<close> returned, which is the handler's result,
  is rejected with it.
\<close>

definition catch_callback :: "js_error \<Rightarrow> hstate \<Rightarrow> hstate" where
  "catch_callback e st =
     st\<lparr>res := res_status 500 (res st),
        result := Rejected (ReferenceError ''stdout is not defined'')\<rparr>"

text \<open>\<open>resolve()\<close> and \<open>reject(error)\<close> settle the inner promise once.\<close>

definition resolve_inner :: "hstate \<Rightarrow> hstate" where
  "resolve_inner st = (if inner st = Pending then st\<lparr>inner := Fulfilled\<rparr> else st)"

definition reject_inner :: "js_error \<Rightarrow> hstate \<Rightarrow> hstate" where
  "reject_inner e st = (if inner st = Pending then st\<lparr>inner := Rejected e\<rparr> else st)"

text \<open>
  The reaction job of the settled inner promise, which runs once the running listener has
  reached its next \<open>await\<close> or its end.
\<close>

definition run_reactions :: "hstate \<Rightarrow> hstate" where
  "run_reactions st =
     (if reacted st then st
      else
        (case inner st of
           Pending \<Rightarrow> st
         | Fulfilled \<Rightarrow> st\<lparr>reacted := True, result := Fulfilled\<rparr>
         | Rejected e \<Rightarrow> catch_callback e (st\<lparr>reacted := True\<rparr>)))"

text \<open>The listeners for \<open>data\<close> on both streams and for \<open>error\<close>.\<close>

fun on_event :: "child_event \<Rightarrow> hstate \<Rightarrow> hstate" where
  "on_event (StderrData d) st = st\<lparr>stderr_buf := stderr_buf st @ d\<rparr>"
| "on_event (StdoutData d) st = st\<lparr>stdout_buf := stdout_buf st @ d\<rparr>"
| "on_event (ErrorEvent e) st = run_reactions (reject_inner e st)"

text \<open>
  The listener for \<open>close\<close>. In each branch the \<open>finally\<close> block calls \<open>fs.rm\<close> before
  the listener gives up control, so the removal starts before the reaction of a
  rejection runs.
\<close>

definition on_close :: "world \<Rightarrow> string \<Rightarrow> string \<Rightarrow> int option \<Rightarrow> hstate \<Rightarrow> hstate" where
  "on_close w tmpDir pdfPath code st0 =
     (let st = log_effect (Closed code) st0 in
      if code \<noteq> Some 0 then
        run_reactions
          (cleanup (Some tmpDir)
             (reject_inner
                (Error (''Decktape failed: '' @ (if stderr_buf st \<noteq> [] then stderr_buf st else stdout_buf st)))
                st))
      else
        (case readFile_result w of
           Inl e \<Rightarrow>
             run_reactions (cleanup (Some tmpDir) (reject_inner e (log_effect (ReadFile pdfPath) st)))
         | Inr pdfBuffer \<Rightarrow>
             (let st1 = log_effect (ReadFile pdfPath) st;
                  r1 = res_setHeader ''Content-Type'' ''application/pdf'' (res st1);
                  r2 = res_setHeader ''Content-Disposition'' ''attachment; filename=presentation.pdf'' r1;
                  r3 = res_send pdfBuffer r2;
                  st2 = log_effect (Respond (status r3) (BufferBody pdfBuffer)) (st1\<lparr>res := r3\<rparr>)
              in run_reactions (cleanup (Some tmpDir) (resolve_inner st2)))))"

text \<open>
  The executor of \<open>new Promise\<close> with everything that follows from it. An exception that
  \<open>spawn\<close> throws rejects the inner promise.
\<close>

definition run_child :: "world \<Rightarrow> string \<Rightarrow> string \<Rightarrow> string list \<Rightarrow> hstate \<Rightarrow> hstate" where
  "run_child w tmpDir pdfPath as st0 =
     (let st = log_effect (Spawn ''node'' as) st0 in
      case spawn_result w of
        SpawnThrows e \<Rightarrow> run_reactions (reject_inner e st)
      | Child events closing \<Rightarrow>
          (let st1 = fold on_event events st in
           case closing of
             NoClose \<Rightarrow> st1
           | Close code \<Rightarrow> on_close w tmpDir pdfPath code st1))"

definition convert :: "variant \<Rightarrow> config \<Rightarrow> world \<Rightarrow> json \<Rightarrow> hstate" where
  "convert v cfg w req_body =
     (let st = initial_state v in
      case destructure req_body of
        Inl e \<Rightarrow> outer_catch e None st
      | Inr (html, options) \<Rightarrow>
          if \<not> truthy_opt html then
            (send_json 400 (JObj [(''error'', JStr ''HTML content is required'')]) st)\<lparr>result := Fulfilled\<rparr>
          else
            (let dirPrefix = join (tmpdir cfg) ''decktape-'';
                 st1 = log_effect (Mkdtemp dirPrefix) st
             in case mkdtemp_result w of
                  Inl e \<Rightarrow> outer_catch e None st1
                | Inr randomChars \<Rightarrow>
                    (let tmpDir = dirPrefix @ randomChars;
                         htmlPath = join tmpDir ''input.html'';
                         pdfPath = join tmpDir ''output.pdf'';
                         st2 = log_effect (WriteFile htmlPath (the html)) st1
                     in case writeFile w (the html) of
                          Some e \<Rightarrow> outer_catch e (Some tmpDir) st2
                        | None \<Rightarrow>
                            (case args v cfg htmlPath pdfPath options of
                               Inl e \<Rightarrow> outer_catch e (Some tmpDir) st2
                             | Inr as \<Rightarrow> run_child w tmpDir pdfPath as st2))))"

section \<open>Definitions used to state the properties\<close>

text \<open>
  The configurable handler of the specification: one argument vector with a boolean that
  selects whether the fixed navigation keys are added after the positional arguments.
\<close>

definition navigation_keys :: "bool \<Rightarrow> string list" where
  "navigation_keys appendKeys = (if appendKeys then [''--key=ArrowDown'', ''--key=ArrowRight''] else [])"

definition args_configurable :: "bool \<Rightarrow> config \<Rightarrow> string \<Rightarrow> string \<Rightarrow> json \<Rightarrow> js_error + string list" where
  "args_configurable appendKeys cfg htmlPath pdfPath options =
     (case option_token ''--size='' options ''size'' of
        Inl e \<Rightarrow> Inl e
      | Inr size_tokens \<Rightarrow>
          (case option_token ''--pause='' options ''pause'' of
             Inl e \<Rightarrow> Inl e
           | Inr pause_tokens \<Rightarrow>
               Inr ([decktapePath cfg, ''--chrome-path'', chromePath cfg]
                    @ map (\<lambda>flag. ''--chrome-arg='' @ flag) (chromeFlags cfg)
                    @ [''generic'', ''file://'' @ htmlPath, pdfPath]
                    @ navigation_keys appendKeys
                    @ size_tokens @ pause_tokens)))"

definition insert_at :: "nat \<Rightarrow> 'a list \<Rightarrow> 'a list \<Rightarrow> 'a list" where
  "insert_at n ys xs = take n xs @ ys @ drop n xs"

text \<open>
  The working directory that \<open>mkdtemp\<close> makes from its random characters, the body of
  the validation response, and the handler's state once the input file is written.
\<close>

definition workingDir :: "config \<Rightarrow> string \<Rightarrow> string" where
  "workingDir cfg randomChars = join (tmpdir cfg) ''decktape-'' @ randomChars"

definition validation_error :: json where
  "validation_error = JObj [(''error'', JStr ''HTML content is required'')]"

definition staged :: "variant \<Rightarrow> config \<Rightarrow> string \<Rightarrow> json \<Rightarrow> hstate" where
  "staged v cfg randomChars html =
     log_effect (WriteFile (join (workingDir cfg randomChars) ''input.html'') html)
       (log_effect (Mkdtemp (join (tmpdir cfg) ''decktape-'')) (initial_state v))"

text \<open>
  The request gets as far as the spawn: its body destructures, \<open>html\<close> is truthy, the
  directory is made with the given random characters, the input file is written, and the
  argument vector is built.
\<close>

definition reaches_spawn ::
  "variant \<Rightarrow> config \<Rightarrow> world \<Rightarrow> json \<Rightarrow> string \<Rightarrow> json \<Rightarrow> string list \<Rightarrow> bool" where
  "reaches_spawn v cfg w req_body randomChars html as =
     (case destructure req_body of
        Inl e \<Rightarrow> False
      | Inr (ho, options) \<Rightarrow>
          ho = Some html \<and> truthy html \<and> mkdtemp_result w = Inr randomChars
          \<and> writeFile w html = None
          \<and> args v cfg (join (workingDir cfg randomChars) ''input.html'')
                (join (workingDir cfg randomChars) ''output.pdf'') options = Inr as)"

text \<open>
  What holds of the two promises while the listeners run: the inner promise is pending
  with its reaction not yet run, or it is rejected, its reaction has run, and the callback
  of \<open>.catch\<close> has left the status 500 and rejected the handler's promise.
\<close>

definition catch_invariant :: "hstate \<Rightarrow> bool" where
  "catch_invariant st =
     (case inner st of
        Pending \<Rightarrow> \<not> reacted st
      | Fulfilled \<Rightarrow> False
      | Rejected e \<Rightarrow>
          reacted st \<and> result st = Rejected (ReferenceError ''stdout is not defined'')
          \<and> status (res st) = 500)"

text \<open>
  The place of an effect in the sequence stage, spawn, wait, read, respond, clean up.
\<close>

fun phase :: "effect \<Rightarrow> nat" where
  "phase (Mkdtemp p) = 1"
| "phase (WriteFile p d) = 2"
| "phase (Spawn cmd as) = 3"
| "phase (Closed code) = 4"
| "phase (ReadFile p) = 5"
| "phase (Respond c b) = 6"
| "phase (RmRf p) = 7"

text \<open>A configuration, a world and a request body to evaluate the handler on.\<close>

definition example_config :: config where
  "example_config = \<lparr>dirname = ''/app'', tmpdir = ''/tmp'', CHROME_PATH = None, CHROME_FLAGS = None\<rparr>"

definition example_world :: world where
  "example_world =
     \<lparr>mkdtemp_result = Inr ''Ab12Cd'', writeFile_result = None,
      writeFile_iterable_result = None,
      spawn_result = Child [StdoutData ''Printing slide 1''] (Close (Some 0)),
      readFile_result = Inr ''%PDF-1.4''\<rparr>"

definition example_body :: json where
  "example_body = JObj [(''html'', JStr ''<h1>x</h1>'')]"

section \<open>Splitting and joining\<close>

lemma split_nonempty: "split sep s \<noteq> []"
  by (induction s) (auto split: list.splits)

lemma split_no_separator: "x \<in> set (split sep s) \<Longrightarrow> sep \<notin> set x"
  by (induction s arbitrary: x) (auto split: list.splits if_splits)

lemma join_with_split: "join_with [sep] (split sep s) = s"
proof (induction s)
  case Nil
  show ?case by simp
next
  case (Cons c cs)
  obtain w ws where ws: "split sep cs = w # ws"
    using split_nonempty [of sep cs] by (cases "split sep cs") auto
  show ?case using Cons ws by (cases ws) auto
qed

lemma length_split: "length (split sep s) = Suc (count_list s sep)"
  by (induction s) (auto split: list.splits simp: split_nonempty)

section \<open>The shape of the argument vector\<close>

lemma args_Inr:
  assumes "args v cfg h p options = Inr as"
  shows "\<exists>st pt. option_token ''--size='' options ''size'' = Inr st
           \<and> option_token ''--pause='' options ''pause'' = Inr pt
           \<and> as = [decktapePath cfg, ''--chrome-path'', chromePath cfg]
                  @ map (\<lambda>flag. ''--chrome-arg='' @ flag) (chromeFlags cfg)
                  @ [''generic'', ''file://'' @ h, p]
                  @ navigation_keys (v = Server) @ st @ pt"
  using assms
  by (cases v) (auto simp: args_server_def args_part_000_def navigation_keys_def split: sum.splits)

lemma option_token_Inr:
  assumes "option_token flag options k = Inr ts"
  shows "\<exists>v. get_prop options k = Inr v
           \<and> (truthy_opt v \<longrightarrow> (\<exists>s. to_string (the v) = Inr s \<and> ts = [flag @ s]))
           \<and> (\<not> truthy_opt v \<longrightarrow> ts = [])"
  using assms by (auto simp: option_token_def split: sum.splits if_splits)

lemma insert_at_append: "length pre = n \<Longrightarrow> insert_at n ys (pre @ post) = pre @ ys @ post"
  by (simp add: insert_at_def)

section \<open>What each part of the handler adds to the trace and the response\<close>

lemma posix_normalize_nonempty: "posix_normalize path \<noteq> []"
  by (simp add: posix_normalize_def Let_def)

lemma join_nonempty: "join a b \<noteq> []"
  by (simp add: join_def posix_normalize_nonempty)

lemma workingDir_nonempty: "workingDir cfg sfx \<noteq> []"
  by (simp add: workingDir_def join_nonempty)

lemma trace_run_reactions: "trace (run_reactions st) = trace st"
  by (simp add: run_reactions_def catch_callback_def split: promise_state.splits)

lemma sent_run_reactions: "sent (res (run_reactions st)) = sent (res st)"
  by (simp add: run_reactions_def catch_callback_def res_status_def split: promise_state.splits)

lemma headers_run_reactions: "headers (res (run_reactions st)) = headers (res st)"
  by (simp add: run_reactions_def catch_callback_def res_status_def split: promise_state.splits)

lemma trace_on_event: "trace (on_event ev st) = trace st"
  by (cases ev) (simp_all add: trace_run_reactions reject_inner_def)

lemma trace_fold_on_event: "trace (fold on_event evs st) = trace st"
  by (induction evs arbitrary: st) (simp_all add: trace_on_event)

lemma sent_on_event: "sent (res (on_event ev st)) = sent (res st)"
  by (cases ev) (simp_all add: sent_run_reactions reject_inner_def)

lemma sent_fold_on_event: "sent (res (fold on_event evs st)) = sent (res st)"
  by (induction evs arbitrary: st) (simp_all add: sent_on_event)

lemma trace_cleanup:
  "trace (cleanup (Some d) st) = trace st @ (if d \<noteq> [] then [RmRf d] else [])"
  "trace (cleanup None st) = trace st"
  by (simp_all add: cleanup_def log_effect_def)

lemma res_cleanup: "res (cleanup d st) = res st"
  by (simp add: cleanup_def log_effect_def split: option.splits)

lemma trace_outer_catch:
  "trace (outer_catch e d st) =
     trace st @ Respond 500 (JsonBody (JObj [(''error'', JStr ''PDF conversion failed''), (''details'', JStr (message e))]))
       # (case d of None \<Rightarrow> [] | Some p \<Rightarrow> if p \<noteq> [] then [RmRf p] else [])"
  by (cases d) (simp_all add: outer_catch_def trace_cleanup send_json_def log_effect_def)

lemma trace_on_close:
  "trace (on_close w tmpDir pdfPath code st) =
     trace st @ Closed code #
       (if code \<noteq> Some 0 then []
        else ReadFile pdfPath #
          (case readFile_result w of
             Inl e \<Rightarrow> []
           | Inr buf \<Rightarrow> [Respond (status (res st)) (BufferBody buf)]))
       @ (if tmpDir \<noteq> [] then [RmRf tmpDir] else [])"
  by (simp add: on_close_def Let_def trace_run_reactions trace_cleanup reject_inner_def
      resolve_inner_def log_effect_def res_send_def res_setHeader_def split: sum.splits)

lemma on_event_trace_update: "on_event ev (st\<lparr>trace := t\<rparr>) = (on_event ev st)\<lparr>trace := t\<rparr>"
  by (cases ev)
    (simp_all add: run_reactions_def reject_inner_def catch_callback_def split: promise_state.splits)

lemma fold_on_event_trace_update:
  "fold on_event evs (st\<lparr>trace := t\<rparr>) = (fold on_event evs st)\<lparr>trace := t\<rparr>"
  by (induction evs arbitrary: st) (simp_all add: on_event_trace_update)

lemma res_fold_on_event_log: "res (fold on_event evs (log_effect e st)) = res (fold on_event evs st)"
  by (simp add: log_effect_def fold_on_event_trace_update)

lemma trace_log_effect: "trace (log_effect e st) = trace st @ [e]"
  by (simp add: log_effect_def)

lemma trace_run_child:
  "trace (run_child w tmpDir pdfPath as st) =
     trace st @ Spawn ''node'' as #
       (case spawn_result w of
          SpawnThrows e \<Rightarrow> []
        | Child evs NoClose \<Rightarrow> []
        | Child evs (Close code) \<Rightarrow>
            Closed code #
              (if code \<noteq> Some 0 then []
               else ReadFile pdfPath #
                 (case readFile_result w of
                    Inl e \<Rightarrow> []
                  | Inr buf \<Rightarrow> [Respond (status (res (fold on_event evs st))) (BufferBody buf)]))
              @ (if tmpDir \<noteq> [] then [RmRf tmpDir] else []))"
  by (simp add: run_child_def Let_def trace_run_reactions trace_on_close trace_fold_on_event
      reject_inner_def res_fold_on_event_log trace_log_effect
      split: spawn_result.splits child_close.splits sum.splits)



section \<open>The paths through the handler\<close>

lemma convert_paths [case_names bad_body invalid mkdtemp_failed write_failed args_failed spawned]:
  obtains
    e where "destructure body = Inl e"
      and "convert v cfg w body = outer_catch e None (initial_state v)"
  | html options where "destructure body = Inr (html, options)" and "\<not> truthy_opt html"
      and "convert v cfg w body =
             (send_json 400 validation_error (initial_state v))\<lparr>result := Fulfilled\<rparr>"
  | html options e where "destructure body = Inr (html, options)" and "truthy_opt html"
      and "mkdtemp_result w = Inl e"
      and "convert v cfg w body =
             outer_catch e None (log_effect (Mkdtemp (join (tmpdir cfg) ''decktape-'')) (initial_state v))"
  | html options sfx e where "destructure body = Inr (Some html, options)" and "truthy html"
      and "mkdtemp_result w = Inr sfx" and "writeFile w html = Some e"
      and "convert v cfg w body = outer_catch e (Some (workingDir cfg sfx)) (staged v cfg sfx html)"
  | html options sfx e where "destructure body = Inr (Some html, options)" and "truthy html"
      and "mkdtemp_result w = Inr sfx" and "writeFile w html = None"
      and "args v cfg (join (workingDir cfg sfx) ''input.html'')
             (join (workingDir cfg sfx) ''output.pdf'') options = Inl e"
      and "convert v cfg w body = outer_catch e (Some (workingDir cfg sfx)) (staged v cfg sfx html)"
  | html options sfx as where "destructure body = Inr (Some html, options)" and "truthy html"
      and "mkdtemp_result w = Inr sfx" and "writeFile w html = None"
      and "args v cfg (join (workingDir cfg sfx) ''input.html'')
             (join (workingDir cfg sfx) ''output.pdf'') options = Inr as"
      and "convert v cfg w body =
             run_child w (workingDir cfg sfx) (join (workingDir cfg sfx) ''output.pdf'') as
               (staged v cfg sfx html)"
proof (cases "destructure body")
  case (Inl e)
  then show ?thesis using that(1) by (simp add: convert_def)
next
  case (Inr p)
  obtain html options where p: "p = (html, options)" by (cases p)
  show ?thesis
  proof (cases "truthy_opt html")
    case False
    then show ?thesis using that(2) Inr p by (simp add: convert_def validation_error_def)
  next
    case True
    then obtain h where h: "html = Some h" "truthy h" by (cases html) auto
    show ?thesis
    proof (cases "mkdtemp_result w")
      case (Inl e)
      then show ?thesis using that(3) Inr p True by (simp add: convert_def Let_def)
    next
      case sfx: (Inr sfx)
      show ?thesis
      proof (cases "writeFile w h")
        case (Some e)
        then show ?thesis using that(4) Inr p h sfx
          by (simp add: convert_def staged_def workingDir_def Let_def)
      next
        case None
        show ?thesis
        proof (cases "args v cfg (join (workingDir cfg sfx) ''input.html'')
             (join (workingDir cfg sfx) ''output.pdf'') options")
          case (Inl e)
          then show ?thesis using that(5) [of h options sfx e] Inr p h sfx None
            by (simp add: convert_def staged_def workingDir_def Let_def)
        next
          case as: (Inr as)
          then show ?thesis using that(6) [of h options sfx as] Inr p h sfx None
            by (simp add: convert_def staged_def workingDir_def Let_def)
        qed
      qed
    qed
  qed
qed

lemma run_child_paths [case_names spawn_throws never_closes failed unreadable success]:
  assumes "tmpDir \<noteq> []"
  obtains
    e where "spawn_result w = SpawnThrows e"
      and "trace (run_child w tmpDir pdfPath as st) = trace st @ [Spawn ''node'' as]"
  | evs where "spawn_result w = Child evs NoClose"
      and "trace (run_child w tmpDir pdfPath as st) = trace st @ [Spawn ''node'' as]"
  | evs code where "spawn_result w = Child evs (Close code)" and "code \<noteq> Some 0"
      and "trace (run_child w tmpDir pdfPath as st) =
             trace st @ [Spawn ''node'' as, Closed code, RmRf tmpDir]"
  | evs e where "spawn_result w = Child evs (Close (Some 0))" and "readFile_result w = Inl e"
      and "trace (run_child w tmpDir pdfPath as st) =
             trace st @ [Spawn ''node'' as, Closed (Some 0), ReadFile pdfPath, RmRf tmpDir]"
  | evs buf where "spawn_result w = Child evs (Close (Some 0))" and "readFile_result w = Inr buf"
      and "trace (run_child w tmpDir pdfPath as st) =
             trace st @ [Spawn ''node'' as, Closed (Some 0), ReadFile pdfPath,
                         Respond (status (res (fold on_event evs st))) (BufferBody buf), RmRf tmpDir]"
proof (cases "spawn_result w")
  case (SpawnThrows e)
  then show ?thesis using that(1) by (simp add: trace_run_child)
next
  case (Child evs closing)
  show ?thesis
  proof (cases closing)
    case NoClose
    then show ?thesis using that(2) Child by (simp add: trace_run_child)
  next
    case (Close code)
    show ?thesis
    proof (cases "code = Some 0")
      case False
      then show ?thesis using that(3) Child Close assms by (simp add: trace_run_child)
    next
      case True
      show ?thesis
      proof (cases "readFile_result w")
        case (Inl e)
        then show ?thesis using that(4) Child Close True assms by (simp add: trace_run_child)
      next
        case (Inr buf)
        then show ?thesis using that(5) Child Close True assms by (simp add: trace_run_child)
      qed
    qed
  qed
qed


lemma trace_staged:
  "trace (staged v cfg sfx html) =
     [Mkdtemp (join (tmpdir cfg) ''decktape-''), WriteFile (join (workingDir cfg sfx) ''input.html'') html]"
  by (simp add: staged_def trace_log_effect initial_state_def)

lemma trace_initial: "trace (initial_state v) = []"
  by (simp add: initial_state_def)

lemma trace_validation:
  "trace ((send_json 400 validation_error (initial_state v))\<lparr>result := Fulfilled\<rparr>) =
     [Respond 400 (JsonBody validation_error)]"
  by (simp add: send_json_def trace_log_effect initial_state_def)

lemmas path_simps = trace_outer_catch trace_staged trace_initial trace_validation trace_log_effect
  workingDir_nonempty

lemma trace_sorted: "sorted_wrt (<) (map phase (trace (convert v cfg w body)))"
proof (cases rule: convert_paths [where v = v and cfg = cfg and w = w and body = body])
  case (spawned html options sfx as)
  show ?thesis
    by (cases rule: run_child_paths [where w = w and tmpDir = "workingDir cfg sfx"
          and pdfPath = "join (workingDir cfg sfx) ''output.pdf''" and as = as
          and st = "staged v cfg sfx html"])
       (simp_all add: spawned path_simps)
qed (simp_all add: path_simps)

lemma closed_if_read:
  assumes "ReadFile f \<in> set (trace (convert v cfg w body))"
  shows "\<exists>code. Closed code \<in> set (trace (convert v cfg w body))"
proof (cases rule: convert_paths [where v = v and cfg = cfg and w = w and body = body])
  case (spawned html options sfx as)
  show ?thesis
    by (cases rule: run_child_paths [where w = w and tmpDir = "workingDir cfg sfx"
          and pdfPath = "join (workingDir cfg sfx) ''output.pdf''" and as = as
          and st = "staged v cfg sfx html"])
       (use assms in \<open>simp_all add: spawned path_simps\<close>)
qed (use assms in \<open>simp_all add: path_simps\<close>)

lemma closed_if_respond_after_spawn:
  assumes "Respond c b \<in> set (trace (convert v cfg w body))"
    and "Spawn cmd as \<in> set (trace (convert v cfg w body))"
  shows "\<exists>code. Closed code \<in> set (trace (convert v cfg w body))"
proof (cases rule: convert_paths [where v = v and cfg = cfg and w = w and body = body])
  case (spawned html options sfx as')
  show ?thesis
    by (cases rule: run_child_paths [where w = w and tmpDir = "workingDir cfg sfx"
          and pdfPath = "join (workingDir cfg sfx) ''output.pdf''" and as = as'
          and st = "staged v cfg sfx html"])
       (use assms in \<open>simp_all add: spawned path_simps\<close>)
qed (use assms in \<open>simp_all add: path_simps\<close>)

lemma earlier_phase_in_prefix:
  assumes "sorted_wrt (<) (map phase (pre @ x # post))" and "y \<in> set (pre @ x # post)"
    and "phase y < phase x"
  shows "y \<in> set pre"
  using assms by (auto simp: sorted_wrt_append)

lemma spawn_args:
  assumes "Spawn cmd as \<in> set (trace (convert v cfg w body))"
  shows "\<exists>html options sfx. cmd = ''node'' \<and> destructure body = Inr (Some html, options) \<and> truthy html
           \<and> mkdtemp_result w = Inr sfx \<and> writeFile w html = None
           \<and> args v cfg (join (workingDir cfg sfx) ''input.html'') (join (workingDir cfg sfx) ''output.pdf'') options = Inr as"
proof (cases rule: convert_paths [where v = v and cfg = cfg and w = w and body = body])
  case (spawned html options sfx as')
  have "cmd = ''node'' \<and> as = as'"
    by (cases rule: run_child_paths [where w = w and tmpDir = "workingDir cfg sfx"
          and pdfPath = "join (workingDir cfg sfx) ''output.pdf''" and as = as'
          and st = "staged v cfg sfx html"])
       (use assms in \<open>simp_all add: spawned path_simps\<close>)
  then show ?thesis using spawned by simp
qed (use assms in \<open>simp_all add: path_simps\<close>)

section \<open>Validation and staging\<close>

lemma destructure_html:
  assumes "get_prop body ''html'' = Inr html"
  shows "\<exists>options. destructure body = Inr (html, options)"
  using assms by (cases body) (auto simp: destructure_def split: option.splits)

lemma res_send_json:
  "status (res (send_json code obj st)) = code"
  "sent (res (send_json code obj st)) = Some (JsonBody obj)"
  by (simp_all add: send_json_def log_effect_def res_json_def res_status_def res_setHeader_def)

lemma status_on_event:
  "status (res (on_event ev st)) = status (res st) \<or> status (res (on_event ev st)) = 500"
  by (cases ev)
    (auto simp: run_reactions_def reject_inner_def catch_callback_def res_status_def
      split: promise_state.splits)

lemma status_fold_on_event:
  "status (res (fold on_event evs st)) = status (res st) \<or> status (res (fold on_event evs st)) = 500"
proof (induction evs arbitrary: st)
  case Nil
  show ?case by simp
next
  case (Cons ev evs)
  show ?case using Cons [of "on_event ev st"] status_on_event [of ev st] by auto
qed

lemma status_staged: "status (res (staged v cfg sfx html)) = 200"
  by (simp add: staged_def log_effect_def initial_state_def)

lemma proceeds_to_staging:
  assumes "destructure body = Inr (ho, options)" and "truthy_opt ho"
  shows "(\<forall>b. Respond 400 b \<notin> set (trace (convert v cfg w body)))
       \<and> take 1 (trace (convert v cfg w body)) = [Mkdtemp (join (tmpdir cfg) ''decktape-'')]
       \<and> (\<forall>sfx. mkdtemp_result w = Inr sfx \<longrightarrow>
            take 2 (trace (convert v cfg w body)) =
              [Mkdtemp (join (tmpdir cfg) ''decktape-''),
               WriteFile (join (workingDir cfg sfx) ''input.html'') (the ho)])"
proof (cases rule: convert_paths [where v = v and cfg = cfg and w = w and body = body])
  case (spawned html options' sfx as)
  have not_400: "status (res (fold on_event evs (staged v cfg sfx html))) \<noteq> 400" for evs
    using status_fold_on_event [of evs "staged v cfg sfx html"] by (auto simp: status_staged)
  show ?thesis
    by (cases rule: run_child_paths [where w = w and tmpDir = "workingDir cfg sfx"
          and pdfPath = "join (workingDir cfg sfx) ''output.pdf''" and as = as
          and st = "staged v cfg sfx html"])
       (use assms not_400 in \<open>auto simp: spawned path_simps\<close>)
qed (use assms in \<open>auto simp: path_simps\<close>)

section \<open>The example run\<close>

lemma example_paths:
  "join (tmpdir example_config) ''decktape-'' = ''/tmp/decktape-''"
  "workingDir example_config ''Ab12Cd'' = ''/tmp/decktape-Ab12Cd''"
  "join (workingDir example_config ''Ab12Cd'') ''input.html'' = ''/tmp/decktape-Ab12Cd/input.html''"
  "join (workingDir example_config ''Ab12Cd'') ''output.pdf'' = ''/tmp/decktape-Ab12Cd/output.pdf''"
  "join ''/tmp/decktape-Ab12Cd'' ''input.html'' = ''/tmp/decktape-Ab12Cd/input.html''"
  "join ''/tmp/decktape-Ab12Cd'' ''output.pdf'' = ''/tmp/decktape-Ab12Cd/output.pdf''"
  "decktapePath example_config = ''/app/decktape.js''"
  "chromePath example_config = ''/usr/bin/chromium-browser''"
  by code_simp+

lemma example_trace:
  "trace (convert Server example_config example_world example_body) =
     [Mkdtemp ''/tmp/decktape-'',
      WriteFile ''/tmp/decktape-Ab12Cd/input.html'' (JStr ''<h1>x</h1>''),
      Spawn ''node''
        [''/app/decktape.js'', ''--chrome-path'', ''/usr/bin/chromium-browser'',
         ''--chrome-arg=--no-sandbox'', ''--chrome-arg=--disable-gpu'', ''generic'',
         ''file:///tmp/decktape-Ab12Cd/input.html'', ''/tmp/decktape-Ab12Cd/output.pdf'',
         ''--key=ArrowDown'', ''--key=ArrowRight''],
      Closed (Some 0),
      ReadFile ''/tmp/decktape-Ab12Cd/output.pdf''] @
     Respond 200 (BufferBody ''%PDF-1.4'') # [RmRf ''/tmp/decktape-Ab12Cd'']"
  by code_simp

section \<open>Tokens by their prefix\<close>

lemma chromeFlags_cases:
  "chromeFlags cfg =
     (case CHROME_FLAGS cfg of
        None \<Rightarrow> [''--no-sandbox'', ''--disable-gpu'']
      | Some s \<Rightarrow> if s = [] then [''--no-sandbox'', ''--disable-gpu''] else split CHR '','' s)"
  by (cases "CHROME_FLAGS cfg") (simp_all add: chromeFlags_def)

lemma filter_chrome_arg_map:
  "filter (prefix ''--chrome-arg='') (map (\<lambda>flag. ''--chrome-arg='' @ flag) fl) =
     map (\<lambda>flag. ''--chrome-arg='' @ flag) fl"
  by (induction fl) auto

lemma filter_other_prefix:
  "filter (prefix ''--size='') (map (\<lambda>flag. ''--chrome-arg='' @ flag) fl) = []"
  "filter (prefix ''--pause='') (map (\<lambda>flag. ''--chrome-arg='' @ flag) fl) = []"
  "filter (prefix ''--size='') (navigation_keys b) = []"
  "filter (prefix ''--pause='') (navigation_keys b) = []"
  "filter (prefix ''--chrome-arg='') (navigation_keys b) = []"
  by (induction fl) (auto simp: navigation_keys_def)

lemma not_flag:
  assumes "\<not> prefix ''--'' t"
  shows "\<not> prefix ''--size='' t" and "\<not> prefix ''--pause='' t" and "\<not> prefix ''--chrome-arg='' t"
  using assms by (auto simp: prefix_def)

section \<open>The paths after the spawn\<close>

lemma convert_spawned:
  assumes "reaches_spawn v cfg w body sfx html as"
  shows "convert v cfg w body =
           run_child w (workingDir cfg sfx) (join (workingDir cfg sfx) ''output.pdf'') as
             (staged v cfg sfx html)"
  using assms
  by (auto simp: reaches_spawn_def convert_def Let_def staged_def workingDir_def
      split: sum.splits prod.splits)

lemma catch_invariant_spawn: "catch_invariant (log_effect (Spawn cmd as) (staged v cfg sfx html))"
  by (simp add: catch_invariant_def log_effect_def staged_def initial_state_def)

lemma catch_invariant_on_event: "catch_invariant st \<Longrightarrow> catch_invariant (on_event ev st)"
  by (cases ev)
    (auto simp: catch_invariant_def run_reactions_def reject_inner_def catch_callback_def
      res_status_def split: promise_state.splits)

lemma catch_invariant_fold: "catch_invariant st \<Longrightarrow> catch_invariant (fold on_event evs st)"
  by (induction evs arbitrary: st) (simp_all add: catch_invariant_on_event)

lemma on_close_rejected:
  assumes "catch_invariant st" and "code \<noteq> Some 0 \<or> (\<exists>e. readFile_result w = Inl e)"
  shows "result (on_close w tmpDir pdfPath code st) = Rejected (ReferenceError ''stdout is not defined'')
       \<and> status (res (on_close w tmpDir pdfPath code st)) = 500
       \<and> sent (res (on_close w tmpDir pdfPath code st)) = sent (res st)"
  using assms
  by (auto simp: on_close_def Let_def catch_invariant_def run_reactions_def reject_inner_def
      catch_callback_def cleanup_def log_effect_def res_status_def split: promise_state.splits)

lemma sent_staged: "sent (res (log_effect e (staged v cfg sfx html))) = None"
  by (simp add: staged_def log_effect_def initial_state_def)

lemma failure_after_spawn:
  assumes "reaches_spawn v cfg w body sfx html as"
    and "spawn_result w = Child evs (Close code)"
    and "code \<noteq> Some 0 \<or> (\<exists>e. readFile_result w = Inl e)"
  shows "sent (res (convert v cfg w body)) = None
       \<and> status (res (convert v cfg w body)) = 500
       \<and> result (convert v cfg w body) = Rejected (ReferenceError ''stdout is not defined'')"
proof -
  let ?st = "fold on_event evs (log_effect (Spawn ''node'' as) (staged v cfg sfx html))"
  have inv: "catch_invariant ?st"
    by (intro catch_invariant_fold catch_invariant_spawn)
  have run: "convert v cfg w body =
      on_close w (workingDir cfg sfx) (join (workingDir cfg sfx) ''output.pdf'') code ?st"
    by (simp add: convert_spawned [OF assms(1)] run_child_def assms(2))
  show ?thesis
    using on_close_rejected [OF inv assms(3)]
    by (simp add: run sent_fold_on_event sent_staged)
qed

lemma launch_failure:
  assumes "reaches_spawn v cfg w body sfx html as"
    and "spawn_result w = SpawnThrows e"
  shows "sent (res (convert v cfg w body)) = None
       \<and> result (convert v cfg w body) = Rejected (ReferenceError ''stdout is not defined'')
       \<and> trace (convert v cfg w body) =
           [Mkdtemp (join (tmpdir cfg) ''decktape-''),
            WriteFile (join (workingDir cfg sfx) ''input.html'') html,
            Spawn ''node'' as]"
  by (simp add: convert_spawned [OF assms(1)] run_child_def assms(2) run_reactions_def
      reject_inner_def catch_callback_def res_status_def log_effect_def staged_def
      initial_state_def)

lemma readable_output_is_sent:
  assumes "reaches_spawn v cfg w body sfx html as"
    and "spawn_result w = Child evs (Close (Some 0))"
    and "readFile_result w = Inr pdfBuffer"
  shows "sent (res (convert v cfg w body)) = Some (BufferBody pdfBuffer)
       \<and> getHeader (res (convert v cfg w body)) ''Content-Type'' = Some ''application/pdf''
       \<and> getHeader (res (convert v cfg w body)) ''Content-Disposition'' =
           Some ''attachment; filename=presentation.pdf''"
  by (simp add: convert_spawned [OF assms(1)] run_child_def assms(2,3) on_close_def Let_def
      sent_run_reactions headers_run_reactions res_cleanup resolve_inner_def log_effect_def
      res_send_def res_setHeader_def getHeader_def)

lemma directory_removed_when_closed:
  assumes "reaches_spawn v cfg w body sfx html as"
    and "spawn_result w = Child evs (Close code)"
  shows "RmRf (workingDir cfg sfx) \<in> set (trace (convert v cfg w body))"
  by (simp add: convert_spawned [OF assms(1)] trace_run_child assms(2) workingDir_nonempty)

lemma directory_removed_when_staging_fails:
  assumes "destructure body = Inr (Some html, options)" and "truthy html"
    and "mkdtemp_result w = Inr sfx"
    and "writeFile w html \<noteq> None
         \<or> (\<exists>e. args v cfg (join (workingDir cfg sfx) ''input.html'')
                   (join (workingDir cfg sfx) ''output.pdf'') options = Inl e)"
  shows "RmRf (workingDir cfg sfx) \<in> set (trace (convert v cfg w body))"
  using assms
  by (auto simp: convert_def Let_def trace_outer_catch workingDir_def join_nonempty
      split: option.splits)


section \<open>A refused write, and when the vector is built\<close>

lemma refused_write:
  assumes "destructure body = Inr (Some html, options)" and "truthy html"
    and "mkdtemp_result w = Inr sfx" and "refused_by_writeFile html"
  shows "\<exists>e. trace (convert v cfg w body) =
           [Mkdtemp (join (tmpdir cfg) ''decktape-''),
            WriteFile (join (workingDir cfg sfx) ''input.html'') html,
            Respond 500 (JsonBody (JObj [(''error'', JStr ''PDF conversion failed''),
                                         (''details'', JStr (message e))])),
            RmRf (workingDir cfg sfx)]
         \<and> sent (res (convert v cfg w body)) =
             Some (JsonBody (JObj [(''error'', JStr ''PDF conversion failed''),
                                   (''details'', JStr (message e))]))
         \<and> status (res (convert v cfg w body)) = 500"
proof -
  obtain e where e: "writeFile w html = Some e"
    using assms(4) by (simp add: writeFile_def)
  have run: "convert v cfg w body = outer_catch e (Some (workingDir cfg sfx)) (staged v cfg sfx html)"
    using assms(1-3) e by (simp add: convert_def Let_def staged_def workingDir_def)
  have "trace (convert v cfg w body) =
           [Mkdtemp (join (tmpdir cfg) ''decktape-''),
            WriteFile (join (workingDir cfg sfx) ''input.html'') html,
            Respond 500 (JsonBody (JObj [(''error'', JStr ''PDF conversion failed''),
                                         (''details'', JStr (message e))])),
            RmRf (workingDir cfg sfx)]"
    by (simp add: run trace_outer_catch trace_staged workingDir_nonempty)
  moreover have "sent (res (convert v cfg w body)) =
             Some (JsonBody (JObj [(''error'', JStr ''PDF conversion failed''),
                                   (''details'', JStr (message e))]))"
    and "status (res (convert v cfg w body)) = 500"
    by (simp_all add: run outer_catch_def res_cleanup res_send_json)
  ultimately show ?thesis by blast
qed

lemma option_token_builds:
  assumes "options \<noteq> JNull"
    and "\<forall>v. get_prop options k = Inr (Some v) \<longrightarrow> truthy v \<longrightarrow> (\<exists>s. to_string v = Inr s)"
  shows "\<exists>ts. option_token flag options k = Inr ts"
proof -
  obtain p where p: "get_prop options k = Inr p"
    using assms(1) by (cases options) auto
  show ?thesis
  proof (cases "truthy_opt p")
    case False
    then show ?thesis by (simp add: option_token_def p)
  next
    case True
    then obtain x where x: "p = Some x" "truthy x" by (cases p) auto
    with assms(2) p obtain s where "to_string x = Inr s" by blast
    with x p show ?thesis by (simp add: option_token_def)
  qed
qed

lemma args_builds:
  assumes "option_token ''--size='' options ''size'' = Inr st"
    and "option_token ''--pause='' options ''pause'' = Inr pt"
  shows "args v cfg h p options =
           Inr ([decktapePath cfg, ''--chrome-path'', chromePath cfg]
                @ map (\<lambda>flag. ''--chrome-arg='' @ flag) (chromeFlags cfg)
                @ [''generic'', ''file://'' @ h, p]
                @ navigation_keys (v = Server) @ st @ pt)"
  using assms by (cases v) (simp_all add: args_server_def args_part_000_def navigation_keys_def)

section \<open>The two variants of the argument vector\<close>

text \<open>
  C9: the argument vectors of the two files are the two instances of the configurable
  vector, and the vector of \<open>src/server.js\<close> is the vector of \<open>src/unnamed/part_000\<close>
  with \<open>--key=ArrowDown\<close> and \<open>--key=ArrowRight\<close> inserted right after the output path
  (both fail with the same error when an option cannot be read or converted).
\<close>

theorem variants_differ_by_navigation_keys:
  "args_server cfg htmlPath pdfPath options = args_configurable True cfg htmlPath pdfPath options
   \<and> args_part_000 cfg htmlPath pdfPath options = args_configurable False cfg htmlPath pdfPath options
   \<and> args_server cfg htmlPath pdfPath options =
       map_sum id (insert_at (6 + length (chromeFlags cfg)) [''--key=ArrowDown'', ''--key=ArrowRight''])
         (args_part_000 cfg htmlPath pdfPath options)"
proof -
  define pre where "pre = [decktapePath cfg, ''--chrome-path'', chromePath cfg]
        @ map (\<lambda>flag. ''--chrome-arg='' @ flag) (chromeFlags cfg)
        @ [''generic'', ''file://'' @ htmlPath, pdfPath]"
  have len: "length pre = 6 + length (chromeFlags cfg)"
    by (simp add: pre_def)
  have server: "args_server cfg htmlPath pdfPath options =
     (case option_token ''--size='' options ''size'' of
        Inl e \<Rightarrow> Inl e
      | Inr st \<Rightarrow>
          (case option_token ''--pause='' options ''pause'' of
             Inl e \<Rightarrow> Inl e
           | Inr pt \<Rightarrow> Inr (pre @ [''--key=ArrowDown'', ''--key=ArrowRight''] @ st @ pt)))"
    by (simp add: args_server_def pre_def split: sum.splits)
  have part: "args_part_000 cfg htmlPath pdfPath options =
     (case option_token ''--size='' options ''size'' of
        Inl e \<Rightarrow> Inl e
      | Inr st \<Rightarrow>
          (case option_token ''--pause='' options ''pause'' of
             Inl e \<Rightarrow> Inl e
           | Inr pt \<Rightarrow> Inr (pre @ st @ pt)))"
    by (simp add: args_part_000_def pre_def split: sum.splits)
  have configurable: "args_configurable b cfg htmlPath pdfPath options =
     (case option_token ''--size='' options ''size'' of
        Inl e \<Rightarrow> Inl e
      | Inr st \<Rightarrow>
          (case option_token ''--pause='' options ''pause'' of
             Inl e \<Rightarrow> Inl e
           | Inr pt \<Rightarrow> Inr (pre @ navigation_keys b @ st @ pt)))" for b
    by (simp add: args_configurable_def pre_def split: sum.splits)
  show ?thesis
    unfolding server part configurable
    by (simp add: navigation_keys_def insert_at_append [OF len] split: sum.splits)
qed

section \<open>The order of effects within one request\<close>

text \<open>
  C8: the effects of one request follow the sequence stage (\<open>mkdtemp\<close>, \<open>writeFile\<close>),
  spawn, close of the process, read of the output file, response, removal of the working
  directory, each at most once and none out of order. Once the renderer is spawned no
  response is sent before its \<open>close\<close> event, and the output file is never read before
  that event.
\<close>

theorem handler_order:
  "sorted_wrt (<) (map phase (trace (convert v cfg w body)))
   \<and> (\<forall>pre post c b. trace (convert v cfg w body) = pre @ Respond c b # post
         \<longrightarrow> (\<exists>cmd as. Spawn cmd as \<in> set pre) \<longrightarrow> (\<exists>code. Closed code \<in> set pre))
   \<and> (\<forall>pre post f. trace (convert v cfg w body) = pre @ ReadFile f # post
         \<longrightarrow> (\<exists>code. Closed code \<in> set pre))"
proof (intro conjI allI impI)
  show "sorted_wrt (<) (map phase (trace (convert v cfg w body)))"
    by (rule trace_sorted)
next
  fix pre post c b
  assume split: "trace (convert v cfg w body) = pre @ Respond c b # post"
    and "\<exists>cmd as. Spawn cmd as \<in> set pre"
  then obtain cmd as where "Spawn cmd as \<in> set (trace (convert v cfg w body))" by auto
  moreover have "Respond c b \<in> set (trace (convert v cfg w body))" by (simp add: split)
  ultimately obtain code where closed: "Closed code \<in> set (pre @ Respond c b # post)"
    using closed_if_respond_after_spawn split by metis
  have "sorted_wrt (<) (map phase (pre @ Respond c b # post))"
    using trace_sorted [of v cfg w body] by (simp only: split)
  then have "Closed code \<in> set pre"
    using closed by (rule earlier_phase_in_prefix) simp
  then show "\<exists>code. Closed code \<in> set pre" ..
next
  fix pre post f
  assume split: "trace (convert v cfg w body) = pre @ ReadFile f # post"
  then have "ReadFile f \<in> set (trace (convert v cfg w body))" by simp
  then obtain code where closed: "Closed code \<in> set (pre @ ReadFile f # post)"
    using closed_if_read split by metis
  have "sorted_wrt (<) (map phase (pre @ ReadFile f # post))"
    using trace_sorted [of v cfg w body] by (simp only: split)
  then have "Closed code \<in> set pre"
    using closed by (rule earlier_phase_in_prefix) simp
  then show "\<exists>code. Closed code \<in> set pre" ..
qed

theorem handler_order_witness:
  "(\<exists>code. Closed code \<in> set
     [Mkdtemp ''/tmp/decktape-'',
      WriteFile ''/tmp/decktape-Ab12Cd/input.html'' (JStr ''<h1>x</h1>''),
      Spawn ''node''
        [''/app/decktape.js'', ''--chrome-path'', ''/usr/bin/chromium-browser'',
         ''--chrome-arg=--no-sandbox'', ''--chrome-arg=--disable-gpu'', ''generic'',
         ''file:///tmp/decktape-Ab12Cd/input.html'', ''/tmp/decktape-Ab12Cd/output.pdf'',
         ''--key=ArrowDown'', ''--key=ArrowRight''],
      Closed (Some 0),
      ReadFile ''/tmp/decktape-Ab12Cd/output.pdf''])
   \<and> sorted_wrt (<) (map phase (trace (convert Server example_config example_world example_body)))"
proof -
  note order = handler_order [of Server example_config example_world example_body]
  have spawned: "\<exists>cmd as. Spawn cmd as \<in> set
     [Mkdtemp ''/tmp/decktape-'',
      WriteFile ''/tmp/decktape-Ab12Cd/input.html'' (JStr ''<h1>x</h1>''),
      Spawn ''node''
        [''/app/decktape.js'', ''--chrome-path'', ''/usr/bin/chromium-browser'',
         ''--chrome-arg=--no-sandbox'', ''--chrome-arg=--disable-gpu'', ''generic'',
         ''file:///tmp/decktape-Ab12Cd/input.html'', ''/tmp/decktape-Ab12Cd/output.pdf'',
         ''--key=ArrowDown'', ''--key=ArrowRight''],
      Closed (Some 0),
      ReadFile ''/tmp/decktape-Ab12Cd/output.pdf'']"
    by simp
  from order have "\<forall>pre post c b. trace (convert Server example_config example_world example_body) =
         pre @ Respond c b # post
         \<longrightarrow> (\<exists>cmd as. Spawn cmd as \<in> set pre) \<longrightarrow> (\<exists>code. Closed code \<in> set pre)"
    by (rule conjunct1 [OF conjunct2])
  with example_trace spawned have closed: "\<exists>code. Closed code \<in> set
     [Mkdtemp ''/tmp/decktape-'',
      WriteFile ''/tmp/decktape-Ab12Cd/input.html'' (JStr ''<h1>x</h1>''),
      Spawn ''node''
        [''/app/decktape.js'', ''--chrome-path'', ''/usr/bin/chromium-browser'',
         ''--chrome-arg=--no-sandbox'', ''--chrome-arg=--disable-gpu'', ''generic'',
         ''file:///tmp/decktape-Ab12Cd/input.html'', ''/tmp/decktape-Ab12Cd/output.pdf'',
         ''--key=ArrowDown'', ''--key=ArrowRight''],
      Closed (Some 0),
      ReadFile ''/tmp/decktape-Ab12Cd/output.pdf'']"
    by blast
  from order have "sorted_wrt (<) (map phase (trace (convert Server example_config example_world example_body)))"
    by (rule conjunct1)
  with closed show ?thesis by (rule conjI)
qed

section \<open>The validation of the request\<close>

text \<open>
  C3: a request whose \<open>html\<close> property is absent or the empty string gets the response
  400 with the body \<open>{ error: "HTML content is required" }\<close>, and that response is the
  only effect: no directory is made, no file is written and no process is spawned.
\<close>

theorem absent_or_empty_html_rejected:
  assumes "get_prop body ''html'' = Inr None \<or> get_prop body ''html'' = Inr (Some (JStr []))"
  shows "status (res (convert v cfg w body)) = 400
       \<and> sent (res (convert v cfg w body)) = Some (JsonBody validation_error)
       \<and> trace (convert v cfg w body) = [Respond 400 (JsonBody validation_error)]
       \<and> result (convert v cfg w body) = Fulfilled"
proof -
  from assms obtain html where h: "get_prop body ''html'' = Inr html" and f: "\<not> truthy_opt html"
    by auto
  from destructure_html [OF h] obtain options where d: "destructure body = Inr (html, options)" ..
  have "convert v cfg w body = (send_json 400 validation_error (initial_state v))\<lparr>result := Fulfilled\<rparr>"
    using d f by (simp add: convert_def validation_error_def)
  then show ?thesis
    by (simp add: res_send_json trace_validation)
qed


theorem absent_or_empty_html_rejected_witness:
  "trace (convert Server example_config example_world (JObj [(''options'', JObj [])])) =
     [Respond 400 (JsonBody validation_error)]
   \<and> sent (res (convert Part000 example_config example_world (JObj [(''html'', JStr [])]))) =
     Some (JsonBody validation_error)"
proof -
  have absent: "get_prop (JObj [(''options'', JObj [])]) ''html'' = Inr None" by simp
  have empty: "get_prop (JObj [(''html'', JStr [])]) ''html'' = Inr (Some (JStr []))" by simp
  show ?thesis
    using absent_or_empty_html_rejected [of "JObj [(''options'', JObj [])]" Server example_config example_world]
      absent_or_empty_html_rejected [of "JObj [(''html'', JStr [])]" Part000 example_config example_world]
      absent empty
    by blast
qed


text \<open>
  C10, as the code has it: validation tests the truthiness of \<open>html\<close> and nothing else.
  Every truthy value, a string or not, gets past it: no 400 response is sent, \<open>mkdtemp\<close> is
  called, and when it succeeds \<open>writeFile\<close> is called on \<open>input.html\<close> in the new
  directory with the value itself. A value that \<open>writeFile\<close> refuses (a number, a boolean,
  an object, an array that holds a number, a boolean or \<open>null\<close>) is not written: the handler
  answers 500 with \<open>PDF conversion failed\<close>, removes the directory and spawns nothing.
  Every falsy value (absent, the empty string, \<open>0\<close>, \<open>false\<close>, \<open>null\<close>) gets the validation
  response and no other effect.
\<close>

theorem truthy_html_passes_validation:
  assumes "get_prop body ''html'' = Inr html"
  shows "(truthy_opt html \<longrightarrow>
            (\<forall>b. Respond 400 b \<notin> set (trace (convert v cfg w body)))
          \<and> take 1 (trace (convert v cfg w body)) = [Mkdtemp (join (tmpdir cfg) ''decktape-'')]
          \<and> (\<forall>sfx. mkdtemp_result w = Inr sfx \<longrightarrow>
               take 2 (trace (convert v cfg w body)) =
                 [Mkdtemp (join (tmpdir cfg) ''decktape-''),
                  WriteFile (join (workingDir cfg sfx) ''input.html'') (the html)]
             \<and> (refused_by_writeFile (the html) \<longrightarrow>
                  status (res (convert v cfg w body)) = 500
                \<and> (\<exists>e. trace (convert v cfg w body) =
                      [Mkdtemp (join (tmpdir cfg) ''decktape-''),
                       WriteFile (join (workingDir cfg sfx) ''input.html'') (the html),
                       Respond 500 (JsonBody (JObj [(''error'', JStr ''PDF conversion failed''),
                                                    (''details'', JStr (message e))])),
                       RmRf (workingDir cfg sfx)]))))
       \<and> (\<not> truthy_opt html \<longrightarrow>
            status (res (convert v cfg w body)) = 400
          \<and> sent (res (convert v cfg w body)) = Some (JsonBody validation_error)
          \<and> trace (convert v cfg w body) = [Respond 400 (JsonBody validation_error)])"
proof -
  from destructure_html [OF assms] obtain options where d: "destructure body = Inr (html, options)" ..
  have "convert v cfg w body = (send_json 400 validation_error (initial_state v))\<lparr>result := Fulfilled\<rparr>"
    if "\<not> truthy_opt html"
    using d that by (simp add: convert_def validation_error_def)
  then have falsy: "\<not> truthy_opt html \<longrightarrow>
            status (res (convert v cfg w body)) = 400
          \<and> sent (res (convert v cfg w body)) = Some (JsonBody validation_error)
          \<and> trace (convert v cfg w body) = [Respond 400 (JsonBody validation_error)]"
    by (simp add: res_send_json trace_validation)
  have refused: "status (res (convert v cfg w body)) = 500
      \<and> (\<exists>e. trace (convert v cfg w body) =
            [Mkdtemp (join (tmpdir cfg) ''decktape-''),
             WriteFile (join (workingDir cfg sfx) ''input.html'') (the html),
             Respond 500 (JsonBody (JObj [(''error'', JStr ''PDF conversion failed''),
                                          (''details'', JStr (message e))])),
             RmRf (workingDir cfg sfx)])"
    if "truthy_opt html" and "mkdtemp_result w = Inr sfx" and "refused_by_writeFile (the html)" for sfx
  proof -
    from that(1) obtain h where h: "html = Some h" "truthy h" by (cases html) auto
    from refused_write [of body h options w sfx v cfg] d h that(2,3)
    show ?thesis by auto
  qed
  show ?thesis
    using proceeds_to_staging [OF d] falsy refused by blast
qed


theorem truthy_html_passes_validation_witness:
  "status (res (convert Server example_config example_world (JObj [(''html'', JNum ''5'')]))) = 500
   \<and> take 2 (trace (convert Server example_config example_world (JObj [(''html'', JNum ''5'')]))) =
     [Mkdtemp ''/tmp/decktape-'', WriteFile ''/tmp/decktape-Ab12Cd/input.html'' (JNum ''5'')]
   \<and> status (res (convert Part000 example_config example_world (JObj [(''html'', JArr [JNum ''1''])]))) = 500
   \<and> trace (convert Server example_config example_world (JObj [(''html'', JNum ''0'')])) =
     [Respond 400 (JsonBody validation_error)]
   \<and> trace (convert Server example_config example_world (JObj [(''html'', JBool False)])) =
     [Respond 400 (JsonBody validation_error)]
   \<and> trace (convert Server example_config example_world (JObj [(''html'', JNull)])) =
     [Respond 400 (JsonBody validation_error)]"
proof -
  have m: "mkdtemp_result example_world = Inr ''Ab12Cd''"
    by (simp add: example_world_def)
  have "status (res (convert Server example_config example_world (JObj [(''html'', JNum ''5'')]))) = 500
   \<and> take 2 (trace (convert Server example_config example_world (JObj [(''html'', JNum ''5'')]))) =
     [Mkdtemp ''/tmp/decktape-'', WriteFile ''/tmp/decktape-Ab12Cd/input.html'' (JNum ''5'')]"
    using truthy_html_passes_validation [of "JObj [(''html'', JNum ''5'')]" "Some (JNum ''5'')"
        Server example_config example_world] m
    by (simp add: example_paths)
  moreover
  have "status (res (convert Part000 example_config example_world (JObj [(''html'', JArr [JNum ''1''])]))) = 500"
    using truthy_html_passes_validation [of "JObj [(''html'', JArr [JNum ''1''])]" "Some (JArr [JNum ''1''])"
        Part000 example_config example_world] m
    by simp
  moreover
  have "trace (convert Server example_config example_world (JObj [(''html'', h)])) =
     [Respond 400 (JsonBody validation_error)]" if "\<not> truthy h" for h
    using truthy_html_passes_validation [of "JObj [(''html'', h)]" "Some h"
        Server example_config example_world] that
    by simp
  from this [of "JNum ''0''"] this [of "JBool False"] this [of JNull]
  have "trace (convert Server example_config example_world (JObj [(''html'', JNum ''0'')])) =
     [Respond 400 (JsonBody validation_error)]
   \<and> trace (convert Server example_config example_world (JObj [(''html'', JBool False)])) =
     [Respond 400 (JsonBody validation_error)]
   \<and> trace (convert Server example_config example_world (JObj [(''html'', JNull)])) =
     [Respond 400 (JsonBody validation_error)]"
    by simp
  ultimately show ?thesis by blast
qed

text \<open>
  C10 as stated fails where it says that a truthy value that is not a string is staged as
  \<open>input.html\<close>: with \<open>html = 5\<close>, and with \<open>html = [1]\<close>, in a world where writing a
  string succeeds, \<open>writeFile\<close> is refused, the request ends with the response 500 and
  the removal of the directory, and nothing is written or spawned.
\<close>

theorem number_is_not_staged_counterexample:
  "truthy (JNum ''5'')
   \<and> writeFile_result example_world = None
   \<and> trace (convert Server example_config example_world (JObj [(''html'', JNum ''5'')])) =
       [Mkdtemp ''/tmp/decktape-'',
        WriteFile ''/tmp/decktape-Ab12Cd/input.html'' (JNum ''5''),
        Respond 500
          (JsonBody (JObj [(''error'', JStr ''PDF conversion failed''),
             (''details'', JStr (message (the (writeFile example_world (JNum ''5'')))))])),
        RmRf ''/tmp/decktape-Ab12Cd'']
   \<and> status (res (convert Server example_config example_world (JObj [(''html'', JNum ''5'')]))) = 500
   \<and> truthy (JArr [JNum ''1''])
   \<and> trace (convert Server example_config example_world (JObj [(''html'', JArr [JNum ''1''])])) =
       [Mkdtemp ''/tmp/decktape-'',
        WriteFile ''/tmp/decktape-Ab12Cd/input.html'' (JArr [JNum ''1'']),
        Respond 500
          (JsonBody (JObj [(''error'', JStr ''PDF conversion failed''),
             (''details'', JStr (message (the (writeFile example_world (JArr [JNum ''1''])))))])),
        RmRf ''/tmp/decktape-Ab12Cd'']"
  by code_simp

section \<open>The positional arguments\<close>

text \<open>
  C6: for every request that gets as far as the argument vector (truthy \<open>html\<close>, the
  directory made, the input file written) and whose \<open>options\<close> can be read and converted,
  the handler spawns \<open>node\<close> exactly with a vector whose first argument is the path of
  \<open>decktape.js\<close> beside the handler and which holds, next to each other and in this order,
  \<open>generic\<close>, the \<open>file://\<close> URI of \<open>input.html\<close> in the working directory, and the path
  of \<open>output.pdf\<close> in the working directory; no other spawn happens.
\<close>

theorem positional_arguments:
  assumes "destructure body = Inr (Some html, options)" and "truthy html"
    and "mkdtemp_result w = Inr sfx" and "writeFile w html = None"
    and "options \<noteq> JNull"
    and "\<forall>k \<in> {''size'', ''pause''}. \<forall>v. get_prop options k = Inr (Some v) \<longrightarrow> truthy v
           \<longrightarrow> (\<exists>s. to_string v = Inr s)"
  shows "\<exists>flags rest.
           Spawn ''node''
             (decktapePath cfg # flags
                @ [''generic'',
                   ''file://'' @ join (workingDir cfg sfx) ''input.html'',
                   join (workingDir cfg sfx) ''output.pdf'']
                @ rest) \<in> set (trace (convert v cfg w body))
         \<and> (\<forall>cmd as. Spawn cmd as \<in> set (trace (convert v cfg w body)) \<longrightarrow>
               cmd = ''node''
             \<and> as = decktapePath cfg # flags
                      @ [''generic'',
                         ''file://'' @ join (workingDir cfg sfx) ''input.html'',
                         join (workingDir cfg sfx) ''output.pdf'']
                      @ rest)"
proof -
  obtain st where st: "option_token ''--size='' options ''size'' = Inr st"
    using option_token_builds [of options "''size''" "''--size=''"] assms(5,6) by auto
  obtain pt where pt: "option_token ''--pause='' options ''pause'' = Inr pt"
    using option_token_builds [of options "''pause''" "''--pause=''"] assms(5,6) by auto
  define flags where "flags = [''--chrome-path'', chromePath cfg]
      @ map (\<lambda>flag. ''--chrome-arg='' @ flag) (chromeFlags cfg)"
  define rest where "rest = navigation_keys (v = Server) @ st @ pt"
  define as where "as = decktapePath cfg # flags
      @ [''generic'', ''file://'' @ join (workingDir cfg sfx) ''input.html'',
         join (workingDir cfg sfx) ''output.pdf''] @ rest"
  have built: "args v cfg (join (workingDir cfg sfx) ''input.html'')
      (join (workingDir cfg sfx) ''output.pdf'') options = Inr as"
    by (simp add: args_builds [OF st pt] as_def flags_def rest_def)
  have reach: "reaches_spawn v cfg w body sfx html as"
    using assms(1-4) built by (simp add: reaches_spawn_def)
  have spawned: "Spawn ''node'' as \<in> set (trace (convert v cfg w body))"
    by (simp add: convert_spawned [OF reach] trace_run_child)
  have only: "cmd = ''node'' \<and> as' = as" if "Spawn cmd as' \<in> set (trace (convert v cfg w body))" for cmd as'
    using spawn_args [OF that] assms(1,3) built by auto
  show ?thesis
    using spawned only unfolding as_def by blast
qed

theorem positional_arguments_witness:
  "trace (convert Server example_config example_world example_body) ! 2 =
     Spawn ''node''
       [''/app/decktape.js'', ''--chrome-path'', ''/usr/bin/chromium-browser'',
        ''--chrome-arg=--no-sandbox'', ''--chrome-arg=--disable-gpu'', ''generic'',
        ''file:///tmp/decktape-Ab12Cd/input.html'', ''/tmp/decktape-Ab12Cd/output.pdf'',
        ''--key=ArrowDown'', ''--key=ArrowRight'']
   \<and> (\<exists>flags rest.
        Spawn ''node''
          (''/app/decktape.js'' # flags
             @ [''generic'', ''file:///tmp/decktape-Ab12Cd/input.html'',
                ''/tmp/decktape-Ab12Cd/output.pdf'']
             @ rest) \<in> set (trace (convert Server example_config example_world example_body)))"
proof -
  have d: "destructure example_body = Inr (Some (JStr ''<h1>x</h1>''), JObj [])"
    by code_simp
  have t: "truthy (JStr ''<h1>x</h1>'')" by simp
  have m: "mkdtemp_result example_world = Inr ''Ab12Cd''"
    by (simp add: example_world_def)
  have wr: "writeFile example_world (JStr ''<h1>x</h1>'') = None"
    by (simp add: writeFile_def example_world_def)
  have n: "JObj [] \<noteq> JNull" by simp
  have o: "\<forall>k \<in> {''size'', ''pause''}. \<forall>v. get_prop (JObj []) k = Inr (Some v) \<longrightarrow> truthy v
           \<longrightarrow> (\<exists>s. to_string v = Inr s)"
    by simp
  from positional_arguments [OF d t m wr n o, where v = Server and cfg = example_config]
  obtain flags rest where
    "Spawn ''node''
       (decktapePath example_config # flags
          @ [''generic'',
             ''file://'' @ join (workingDir example_config ''Ab12Cd'') ''input.html'',
             join (workingDir example_config ''Ab12Cd'') ''output.pdf'']
          @ rest) \<in> set (trace (convert Server example_config example_world example_body))"
    by blast
  then have "Spawn ''node''
          (''/app/decktape.js'' # flags
             @ [''generic'', ''file:///tmp/decktape-Ab12Cd/input.html'',
                ''/tmp/decktape-Ab12Cd/output.pdf'']
             @ rest) \<in> set (trace (convert Server example_config example_world example_body))"
    by (simp add: example_paths)
  then have "\<exists>flags rest.
        Spawn ''node''
          (''/app/decktape.js'' # flags
             @ [''generic'', ''file:///tmp/decktape-Ab12Cd/input.html'',
                ''/tmp/decktape-Ab12Cd/output.pdf'']
             @ rest) \<in> set (trace (convert Server example_config example_world example_body))"
    by blast
  moreover have "trace (convert Server example_config example_world example_body) ! 2 =
     Spawn ''node''
       [''/app/decktape.js'', ''--chrome-path'', ''/usr/bin/chromium-browser'',
        ''--chrome-arg=--no-sandbox'', ''--chrome-arg=--disable-gpu'', ''generic'',
        ''file:///tmp/decktape-Ab12Cd/input.html'', ''/tmp/decktape-Ab12Cd/output.pdf'',
        ''--key=ArrowDown'', ''--key=ArrowRight'']"
    by (simp add: example_trace)
  ultimately show ?thesis by blast
qed

section \<open>The browser flags\<close>

text \<open>
  C7, as the code has it: the vector holds, right after the browser path and before
  \<open>generic\<close>, one token \<open>--chrome-arg=<flag>\<close> for each element that splitting the
  configured string at its commas gives, in the same order, when that string is set and
  not empty; when it is unset or empty, the two tokens \<open>--chrome-arg=--no-sandbox\<close>
  and \<open>--chrome-arg=--disable-gpu\<close>. When none of the paths in the vector starts with
  \<open>--\<close>, these are all the \<open>--chrome-arg=\<close> tokens of the vector.
\<close>

theorem chrome_arg_tokens:
  assumes "args v cfg htmlPath pdfPath options = Inr as"
  shows "(\<exists>rest. as = [decktapePath cfg, ''--chrome-path'', chromePath cfg]
                    @ map (\<lambda>flag. ''--chrome-arg='' @ flag)
                        (case CHROME_FLAGS cfg of
                           None \<Rightarrow> [''--no-sandbox'', ''--disable-gpu'']
                         | Some s \<Rightarrow> if s = [] then [''--no-sandbox'', ''--disable-gpu'']
                                     else split CHR '','' s)
                    @ ''generic'' # rest)
       \<and> ((\<forall>t \<in> {decktapePath cfg, chromePath cfg, pdfPath}. \<not> prefix ''--'' t) \<longrightarrow>
            filter (prefix ''--chrome-arg='') as =
              map (\<lambda>flag. ''--chrome-arg='' @ flag)
                (case CHROME_FLAGS cfg of
                   None \<Rightarrow> [''--no-sandbox'', ''--disable-gpu'']
                 | Some s \<Rightarrow> if s = [] then [''--no-sandbox'', ''--disable-gpu'']
                             else split CHR '','' s))"
proof -
  obtain st pt where st: "option_token ''--size='' options ''size'' = Inr st"
    and pt: "option_token ''--pause='' options ''pause'' = Inr pt"
    and as: "as = [decktapePath cfg, ''--chrome-path'', chromePath cfg]
                  @ map (\<lambda>flag. ''--chrome-arg='' @ flag) (chromeFlags cfg)
                  @ [''generic'', ''file://'' @ htmlPath, pdfPath]
                  @ navigation_keys (v = Server) @ st @ pt"
    using args_Inr [OF assms] by blast
  have tokens: "filter (prefix ''--chrome-arg='') st = []" "filter (prefix ''--chrome-arg='') pt = []"
    using option_token_Inr [OF st] option_token_Inr [OF pt] by auto
  have "filter (prefix ''--chrome-arg='') as = map (\<lambda>flag. ''--chrome-arg='' @ flag) (chromeFlags cfg)"
    if "\<forall>t \<in> {decktapePath cfg, chromePath cfg, pdfPath}. \<not> prefix ''--'' t"
    using that tokens by (simp add: as filter_chrome_arg_map filter_other_prefix not_flag)
  moreover have "\<exists>rest. as = [decktapePath cfg, ''--chrome-path'', chromePath cfg]
                    @ map (\<lambda>flag. ''--chrome-arg='' @ flag) (chromeFlags cfg) @ ''generic'' # rest"
    by (simp add: as)
  ultimately show ?thesis
    unfolding chromeFlags_cases [symmetric] by blast
qed

theorem chrome_arg_tokens_witness:
  "args Part000 (example_config\<lparr>CHROME_FLAGS := Some ''--headless,,--mute-audio''\<rparr>)
      ''/tmp/d/input.html'' ''/tmp/d/output.pdf'' (JObj []) =
    Inr [''/app/decktape.js'', ''--chrome-path'', ''/usr/bin/chromium-browser'',
      ''--chrome-arg=--headless'', ''--chrome-arg='', ''--chrome-arg=--mute-audio'',
      ''generic'', ''file:///tmp/d/input.html'', ''/tmp/d/output.pdf'']
   \<and> filter (prefix ''--chrome-arg='')
     [''/app/decktape.js'', ''--chrome-path'', ''/usr/bin/chromium-browser'',
      ''--chrome-arg=--headless'', ''--chrome-arg='', ''--chrome-arg=--mute-audio'',
      ''generic'', ''file:///tmp/d/input.html'', ''/tmp/d/output.pdf'']
   = [''--chrome-arg=--headless'', ''--chrome-arg='', ''--chrome-arg=--mute-audio'']"
proof -
  have vector: "args Part000 (example_config\<lparr>CHROME_FLAGS := Some ''--headless,,--mute-audio''\<rparr>)
      ''/tmp/d/input.html'' ''/tmp/d/output.pdf'' (JObj []) =
    Inr [''/app/decktape.js'', ''--chrome-path'', ''/usr/bin/chromium-browser'',
      ''--chrome-arg=--headless'', ''--chrome-arg='', ''--chrome-arg=--mute-audio'',
      ''generic'', ''file:///tmp/d/input.html'', ''/tmp/d/output.pdf'']"
    by code_simp
  have paths: "\<forall>t \<in> {decktapePath (example_config\<lparr>CHROME_FLAGS := Some ''--headless,,--mute-audio''\<rparr>),
      chromePath (example_config\<lparr>CHROME_FLAGS := Some ''--headless,,--mute-audio''\<rparr>),
      ''/tmp/d/output.pdf''}. \<not> prefix ''--'' t"
    by code_simp
  have flags: "split CHR '','' ''--headless,,--mute-audio'' = [''--headless'', [], ''--mute-audio'']"
    by code_simp
  from chrome_arg_tokens [OF vector, THEN conjunct2, THEN mp, OF paths]
  have "filter (prefix ''--chrome-arg='')
     [''/app/decktape.js'', ''--chrome-path'', ''/usr/bin/chromium-browser'',
      ''--chrome-arg=--headless'', ''--chrome-arg='', ''--chrome-arg=--mute-audio'',
      ''generic'', ''file:///tmp/d/input.html'', ''/tmp/d/output.pdf'']
   = [''--chrome-arg=--headless'', ''--chrome-arg='', ''--chrome-arg=--mute-audio'']"
    by (simp add: flags)
  with vector show ?thesis by (rule conjI)
qed

text \<open>
  C7 as stated fails for the empty string: it is a value of the configuration, splitting it
  gives the one element \<open>''\<close>, and the vector holds the two default tokens.
\<close>

theorem empty_flags_counterexample:
  "CHROME_FLAGS (example_config\<lparr>CHROME_FLAGS := Some []\<rparr>) = Some []
   \<and> split CHR '','' [] = [[]]
   \<and> args Part000 (example_config\<lparr>CHROME_FLAGS := Some []\<rparr>)
        ''/tmp/d/input.html'' ''/tmp/d/output.pdf'' (JObj []) =
      Inr [''/app/decktape.js'', ''--chrome-path'', ''/usr/bin/chromium-browser'',
           ''--chrome-arg=--no-sandbox'', ''--chrome-arg=--disable-gpu'',
           ''generic'', ''file:///tmp/d/input.html'', ''/tmp/d/output.pdf'']"
  by code_simp

section \<open>The optional tokens\<close>

text \<open>
  C4, as the code has it: when none of the configured paths starts with \<open>--\<close>, the
  vector holds exactly one token that starts with \<open>--size=\<close>, namely \<open>--size=\<close>
  followed by the string conversion of \<open>options.size\<close>, if \<open>options.size\<close> is truthy,
  and no such token otherwise; the same for \<open>--pause=\<close> and \<open>options.pause\<close>.
\<close>

theorem option_tokens_iff_truthy:
  assumes "args v cfg htmlPath pdfPath options = Inr as"
    and "get_prop options ''size'' = Inr sz"
    and "get_prop options ''pause'' = Inr pz"
    and "\<forall>t \<in> {decktapePath cfg, chromePath cfg, pdfPath}. \<not> prefix ''--'' t"
  shows "(truthy_opt sz \<longrightarrow>
            (\<exists>s. to_string (the sz) = Inr s \<and> filter (prefix ''--size='') as = [''--size='' @ s]))
       \<and> (\<not> truthy_opt sz \<longrightarrow> filter (prefix ''--size='') as = [])
       \<and> (truthy_opt pz \<longrightarrow>
            (\<exists>s. to_string (the pz) = Inr s \<and> filter (prefix ''--pause='') as = [''--pause='' @ s]))
       \<and> (\<not> truthy_opt pz \<longrightarrow> filter (prefix ''--pause='') as = [])"
proof -
  obtain st pt where st: "option_token ''--size='' options ''size'' = Inr st"
    and pt: "option_token ''--pause='' options ''pause'' = Inr pt"
    and as: "as = [decktapePath cfg, ''--chrome-path'', chromePath cfg]
                  @ map (\<lambda>flag. ''--chrome-arg='' @ flag) (chromeFlags cfg)
                  @ [''generic'', ''file://'' @ htmlPath, pdfPath]
                  @ navigation_keys (v = Server) @ st @ pt"
    using args_Inr [OF assms(1)] by blast
  have paths: "\<not> prefix ''--size='' (decktapePath cfg)" "\<not> prefix ''--size='' (chromePath cfg)"
    "\<not> prefix ''--size='' pdfPath" "\<not> prefix ''--pause='' (decktapePath cfg)"
    "\<not> prefix ''--pause='' (chromePath cfg)" "\<not> prefix ''--pause='' pdfPath"
    using assms(4) by (simp_all add: not_flag)
  have size_part: "filter (prefix ''--size='') as = filter (prefix ''--size='') st"
   and pause_part: "filter (prefix ''--pause='') as = filter (prefix ''--pause='') pt"
    using option_token_Inr [OF st] option_token_Inr [OF pt] paths
    by (auto simp: as filter_other_prefix)
  show ?thesis
    using option_token_Inr [OF st] option_token_Inr [OF pt] assms(2,3)
    by (auto simp: size_part pause_part)
qed


text \<open>
  With \<open>options = { size: "A4", pause: 2 }\<close> both tokens appear, with \<open>options = {}\<close>
  neither does.
\<close>

theorem option_tokens_iff_truthy_witness:
  "args Server example_config ''/tmp/d/input.html'' ''/tmp/d/output.pdf''
      (JObj [(''size'', JStr ''A4''), (''pause'', JNum ''2'')]) =
    Inr [''/app/decktape.js'', ''--chrome-path'', ''/usr/bin/chromium-browser'',
      ''--chrome-arg=--no-sandbox'', ''--chrome-arg=--disable-gpu'',
      ''generic'', ''file:///tmp/d/input.html'', ''/tmp/d/output.pdf'',
      ''--key=ArrowDown'', ''--key=ArrowRight'', ''--size=A4'', ''--pause=2'']
   \<and> filter (prefix ''--size='')
     [''/app/decktape.js'', ''--chrome-path'', ''/usr/bin/chromium-browser'',
      ''--chrome-arg=--no-sandbox'', ''--chrome-arg=--disable-gpu'',
      ''generic'', ''file:///tmp/d/input.html'', ''/tmp/d/output.pdf'',
      ''--key=ArrowDown'', ''--key=ArrowRight'', ''--size=A4'', ''--pause=2''] = [''--size=A4'']
   \<and> filter (prefix ''--pause='')
     [''/app/decktape.js'', ''--chrome-path'', ''/usr/bin/chromium-browser'',
      ''--chrome-arg=--no-sandbox'', ''--chrome-arg=--disable-gpu'',
      ''generic'', ''file:///tmp/d/input.html'', ''/tmp/d/output.pdf'',
      ''--key=ArrowDown'', ''--key=ArrowRight'', ''--size=A4'', ''--pause=2''] = [''--pause=2'']
   \<and> filter (prefix ''--size='')
     [''/app/decktape.js'', ''--chrome-path'', ''/usr/bin/chromium-browser'',
      ''--chrome-arg=--no-sandbox'', ''--chrome-arg=--disable-gpu'',
      ''generic'', ''file:///tmp/d/input.html'', ''/tmp/d/output.pdf'',
      ''--key=ArrowDown'', ''--key=ArrowRight''] = []
   \<and> filter (prefix ''--pause='')
     [''/app/decktape.js'', ''--chrome-path'', ''/usr/bin/chromium-browser'',
      ''--chrome-arg=--no-sandbox'', ''--chrome-arg=--disable-gpu'',
      ''generic'', ''file:///tmp/d/input.html'', ''/tmp/d/output.pdf'',
      ''--key=ArrowDown'', ''--key=ArrowRight''] = []"
proof -
  have both: "args Server example_config ''/tmp/d/input.html'' ''/tmp/d/output.pdf''
      (JObj [(''size'', JStr ''A4''), (''pause'', JNum ''2'')]) =
    Inr [''/app/decktape.js'', ''--chrome-path'', ''/usr/bin/chromium-browser'',
      ''--chrome-arg=--no-sandbox'', ''--chrome-arg=--disable-gpu'',
      ''generic'', ''file:///tmp/d/input.html'', ''/tmp/d/output.pdf'',
      ''--key=ArrowDown'', ''--key=ArrowRight'', ''--size=A4'', ''--pause=2'']"
    by code_simp
  have neither: "args Server example_config ''/tmp/d/input.html'' ''/tmp/d/output.pdf'' (JObj []) =
    Inr [''/app/decktape.js'', ''--chrome-path'', ''/usr/bin/chromium-browser'',
      ''--chrome-arg=--no-sandbox'', ''--chrome-arg=--disable-gpu'',
      ''generic'', ''file:///tmp/d/input.html'', ''/tmp/d/output.pdf'',
      ''--key=ArrowDown'', ''--key=ArrowRight'']"
    by code_simp
  have paths: "\<forall>t \<in> {decktapePath example_config, chromePath example_config,
      ''/tmp/d/output.pdf''}. \<not> prefix ''--'' t"
    by code_simp
  have size: "get_prop (JObj [(''size'', JStr ''A4''), (''pause'', JNum ''2'')]) ''size'' = Inr (Some (JStr ''A4''))"
    and pause: "get_prop (JObj [(''size'', JStr ''A4''), (''pause'', JNum ''2'')]) ''pause'' = Inr (Some (JNum ''2''))"
    and absent: "get_prop (JObj []) ''size'' = Inr None" "get_prop (JObj []) ''pause'' = Inr None"
    by simp_all
  from option_tokens_iff_truthy [OF both size pause paths]
    option_tokens_iff_truthy [OF neither absent paths] both
  show ?thesis by simp
qed

text \<open>
  C4 as stated fails for a property that is present and falsy: with
  \<open>options = { size: "", pause: 0 }\<close> both are present and neither token appears.
\<close>

theorem falsy_option_counterexample:
  "get_prop (JObj [(''size'', JStr []), (''pause'', JNum ''0'')]) ''size'' = Inr (Some (JStr []))
   \<and> get_prop (JObj [(''size'', JStr []), (''pause'', JNum ''0'')]) ''pause'' = Inr (Some (JNum ''0''))
   \<and> args Part000 example_config ''/tmp/d/input.html'' ''/tmp/d/output.pdf''
        (JObj [(''size'', JStr []), (''pause'', JNum ''0'')]) =
      Inr [''/app/decktape.js'', ''--chrome-path'', ''/usr/bin/chromium-browser'',
           ''--chrome-arg=--no-sandbox'', ''--chrome-arg=--disable-gpu'',
           ''generic'', ''file:///tmp/d/input.html'', ''/tmp/d/output.pdf'']"
  by code_simp

section \<open>The renderer fails\<close>

text \<open>
  C1 says that a renderer that exits with a non-zero code gets the response 500 with a
  JSON body that holds the failure message and both captured buffers. Evaluated on a run
  where the renderer writes \<open>boom\<close> to its error stream and exits with code 1, the
  handler rejects the inner promise with \<open>Decktape failed: boom\<close>, the callback of
  \<open>.catch\<close> sets the status 500 and throws a \<open>ReferenceError\<close> where it names
  \<open>stdout\<close>, no body is sent, and the promise the handler returns is rejected.
  Lemma \<open>failure_after_spawn\<close> shows the same for every such run.
\<close>

theorem nonzero_exit_sends_no_response:
  "sent (res (convert Server example_config
      (example_world\<lparr>spawn_result := Child [StdoutData ''Loading'', StderrData ''boom''] (Close (Some 1))\<rparr>)
      example_body)) = None
   \<and> status (res (convert Server example_config
      (example_world\<lparr>spawn_result := Child [StdoutData ''Loading'', StderrData ''boom''] (Close (Some 1))\<rparr>)
      example_body)) = 500
   \<and> inner (convert Server example_config
      (example_world\<lparr>spawn_result := Child [StdoutData ''Loading'', StderrData ''boom''] (Close (Some 1))\<rparr>)
      example_body) = Rejected (Error ''Decktape failed: boom'')
   \<and> result (convert Server example_config
      (example_world\<lparr>spawn_result := Child [StdoutData ''Loading'', StderrData ''boom''] (Close (Some 1))\<rparr>)
      example_body) = Rejected (ReferenceError ''stdout is not defined'')"
  by code_simp

section \<open>The output file\<close>

text \<open>
  C5 says that after exit code 0 the handler sends the bytes of \<open>output.pdf\<close> with the
  two headers, and an internal error when the file cannot be read. Evaluated on a run
  with exit code 0 where \<open>readFile\<close> fails, the handler sends no body and its promise is
  rejected with the \<open>ReferenceError\<close> of the \<open>.catch\<close> callback; on the run where the
  file is readable it sends the bytes with both headers (lemma
  \<open>readable_output_is_sent\<close> shows that half for every run).
\<close>

theorem unreadable_output_sends_no_response:
  "sent (res (convert Server example_config
      (example_world\<lparr>readFile_result := Inl (SystemError ''ENOENT: no such file or directory'')\<rparr>)
      example_body)) = None
   \<and> status (res (convert Server example_config
      (example_world\<lparr>readFile_result := Inl (SystemError ''ENOENT: no such file or directory'')\<rparr>)
      example_body)) = 500
   \<and> result (convert Server example_config
      (example_world\<lparr>readFile_result := Inl (SystemError ''ENOENT: no such file or directory'')\<rparr>)
      example_body) = Rejected (ReferenceError ''stdout is not defined'')
   \<and> sent (res (convert Server example_config example_world example_body)) =
       Some (BufferBody ''%PDF-1.4'')
   \<and> getHeader (res (convert Server example_config example_world example_body)) ''Content-Type'' =
       Some ''application/pdf''
   \<and> getHeader (res (convert Server example_config example_world example_body)) ''Content-Disposition'' =
       Some ''attachment; filename=presentation.pdf''"
  by code_simp

section \<open>Removal of the working directory\<close>

text \<open>
  C2 says that the working directory is removed on every path once it exists. Evaluated
  on a run where \<open>spawn\<close> throws, the directory is made, the input file is written, and
  the trace ends with the spawn: \<open>fs.rm\<close> is not called, no body is sent, and the
  handler's promise is rejected. Only the \<open>finally\<close> block of the close listener and the
  outer \<open>catch\<close> remove the directory (lemmas \<open>directory_removed_when_closed\<close> and
  \<open>directory_removed_when_staging_fails\<close>); an exception in the executor of
  \<open>new Promise\<close> reaches neither (lemma \<open>launch_failure\<close>).
\<close>

theorem launch_failure_keeps_directory:
  "trace (convert Server example_config
      (example_world\<lparr>spawn_result := SpawnThrows (SystemError ''spawn E2BIG'')\<rparr>) example_body) =
     [Mkdtemp ''/tmp/decktape-'',
      WriteFile ''/tmp/decktape-Ab12Cd/input.html'' (JStr ''<h1>x</h1>''),
      Spawn ''node''
        [''/app/decktape.js'', ''--chrome-path'', ''/usr/bin/chromium-browser'',
         ''--chrome-arg=--no-sandbox'', ''--chrome-arg=--disable-gpu'', ''generic'',
         ''file:///tmp/decktape-Ab12Cd/input.html'', ''/tmp/decktape-Ab12Cd/output.pdf'',
         ''--key=ArrowDown'', ''--key=ArrowRight'']]
   \<and> sent (res (convert Server example_config
      (example_world\<lparr>spawn_result := SpawnThrows (SystemError ''spawn E2BIG'')\<rparr>) example_body)) = None
   \<and> result (convert Server example_config
      (example_world\<lparr>spawn_result := SpawnThrows (SystemError ''spawn E2BIG'')\<rparr>) example_body) =
     Rejected (ReferenceError ''stdout is not defined'')"
  by code_simp

end
